theory Spec2Isabelle
  imports Complex_Main "HOL-Library.Sublist"
begin


section \<open>JavaScript string primitives\<close>

text \<open>
  Strings are lists of 8-bit characters: the model covers JavaScript strings whose code
  units are below 256. The white space of the regular-expression class \<open>\s\<close> and of
  \<open>String.prototype.trim\<close> is then TAB, LF, VT, FF, CR, SPACE and NBSP.
\<close>

definition is_space :: "char \<Rightarrow> bool" where
  "is_space c \<longleftrightarrow> c \<in> {CHR 0x09, CHR 0x0A, CHR 0x0B, CHR 0x0C, CHR 0x0D, CHR 0x20, CHR 0xA0}"

definition trim :: "string \<Rightarrow> string" where
  "trim s = rev (dropWhile is_space (rev (dropWhile is_space s)))"

fun startsWith :: "string \<Rightarrow> string \<Rightarrow> bool" where
  "startsWith s [] = True"
| "startsWith [] (p # ps) = False"
| "startsWith (c # cs) (p # ps) = (c = p \<and> startsWith cs ps)"

fun includes_str :: "string \<Rightarrow> string \<Rightarrow> bool" where
  "includes_str [] sub = (sub = [])"
| "includes_str (c # cs) sub = (startsWith (c # cs) sub \<or> includes_str cs sub)"

fun indexOf :: "string \<Rightarrow> char \<Rightarrow> nat option" where
  "indexOf [] c = None"
| "indexOf (x # xs) c = (if x = c then Some 0 else map_option Suc (indexOf xs c))"

definition lastIndexOf :: "string \<Rightarrow> char \<Rightarrow> nat option" where
  "lastIndexOf s c = map_option (\<lambda>i. length s - 1 - i) (indexOf (rev s) c)"

definition substring :: "string \<Rightarrow> nat \<Rightarrow> nat \<Rightarrow> string" where
  \<comment> \<open>\<open>s.substring(a, b)\<close> for \<open>a \<le> b\<close>; indices beyond the end are clamped.\<close>
  "substring s a b = take (b - a) (drop a s)"

fun split_nl :: "string \<Rightarrow> string list" where
  \<comment> \<open>\<open>s.split("\n")\<close>\<close>
  "split_nl [] = [[]]"
| "split_nl (c # cs) =
     (if c = CHR 0x0A then [] # split_nl cs
      else (c # hd (split_nl cs)) # tl (split_nl cs))"

fun join :: "string \<Rightarrow> string list \<Rightarrow> string" where
  \<comment> \<open>\<open>xs.join(sep)\<close>\<close>
  "join sep [] = []"
| "join sep [x] = x"
| "join sep (x # y # ys) = x @ sep @ join sep (y # ys)"

function replace_fence :: "string \<Rightarrow> string \<Rightarrow> string" where
  \<comment> \<open>\<open>s.replace(/p\s*/g, "")\<close> for a literal, non-empty \<open>p\<close>: matches are found left
      to right, each takes the white space that follows it, and the search resumes
      after the match.\<close>
  "replace_fence p s =
     (if s = [] \<or> p = [] then s
      else if startsWith s p then replace_fence p (dropWhile is_space (drop (length p) s))
      else hd s # replace_fence p (tl s))"
  by pat_completeness auto
termination
proof (relation "measure (\<lambda>(p, s). length s)")
  fix p s :: string
  assume "\<not> (s = [] \<or> p = [])"
  then have "length (drop (length p) s) < length s" by simp
  moreover have "length (dropWhile is_space (drop (length p) s)) \<le> length (drop (length p) s)"
    by (rule length_dropWhile_le)
  ultimately show "((p, dropWhile is_space (drop (length p) s)), (p, s)) \<in> measure (\<lambda>(p, s). length s)"
    by simp
qed auto

declare replace_fence.simps [simp del]

section \<open>Extraction of the JSON text from a model response\<close>

definition brace_delta :: "string \<Rightarrow> int" where
  \<comment> \<open>what one line adds to \<open>braceCount\<close>\<close>
  "brace_delta l = int (count_list l (CHR ''{'')) - int (count_list l (CHR ''}''))"

fun collect_json_lines :: "string list \<Rightarrow> bool \<Rightarrow> int \<Rightarrow> string list" where
  \<comment> \<open>the \<open>for (const line of lines)\<close> loop of \<open>extractJsonFromResponse\<close>, with
      \<open>foundStart\<close> and \<open>braceCount\<close> as arguments; the result is \<open>jsonLines\<close>\<close>
  "collect_json_lines [] foundStart braceCount = []"
| "collect_json_lines (l # ls) foundStart braceCount =
     (let foundStart' = (foundStart \<or> CHR ''{'' \<in> set l) in
      if foundStart' then
        (let braceCount' = braceCount + brace_delta l in
         if braceCount' = 0 then [l]
         else l # collect_json_lines ls foundStart' braceCount')
      else collect_json_lines ls foundStart' braceCount)"

definition strip_fences :: "string \<Rightarrow> string" where
  "strip_fences text = replace_fence ''```'' (replace_fence ''```json'' text)"

definition json_bounds :: "string \<Rightarrow> string" where
  \<comment> \<open>the cut from the first \<open>{\<close> to the last \<open>}\<close>, when both exist in that order\<close>
  "json_bounds cleaned =
     (case (indexOf cleaned (CHR ''{''), lastIndexOf cleaned (CHR ''}'')) of
        (Some jsonStart, Some jsonEnd) \<Rightarrow>
          if jsonEnd > jsonStart then substring cleaned jsonStart (jsonEnd + 1) else cleaned
      | _ \<Rightarrow> cleaned)"

definition extractJsonFromResponse :: "string \<Rightarrow> string" where
  "extractJsonFromResponse text =
     trim (join [CHR 0x0A] (collect_json_lines (split_nl (json_bounds (strip_fences text))) False 0))"

text \<open>
  The running brace count after line \<open>k\<close> of a list of lines, and the region the
  specification describes: from the first \<open>{\<close> of the text to the end of the first
  line, counted from the first line that holds a \<open>{\<close>, on which the running count is
  back at zero.
\<close>

definition running :: "string list \<Rightarrow> nat \<Rightarrow> int" where
  "running ls k = sum_list (map brace_delta (take (Suc k) ls))"

definition claimed_region :: "string \<Rightarrow> string option" where
  "claimed_region t =
     (let ls = dropWhile (\<lambda>l. CHR ''{'' \<notin> set l) (split_nl t) in
      case find (\<lambda>k. running ls k = 0) [0..<length ls] of
        None \<Rightarrow> None
      | Some z \<Rightarrow> Some (dropWhile (\<lambda>c. c \<noteq> CHR ''{'') (join [CHR 0x0A] (take (Suc z) ls))))"


section \<open>Filenames of artifacts\<close>

text \<open>
  Object-literal tables of the source (\<open>extensions\<close>, \<open>typePrefix\<close>, \<open>templates\<close>,
  \<open>dependencyMap\<close>, \<open>planLimits\<close>) are association lists looked up by their own keys.
\<close>

definition toLowerCase_char :: "char \<Rightarrow> char" where
  \<comment> \<open>lower case of a code unit below 256: A-Z and the Latin-1 capitals\<close>
  "toLowerCase_char c =
     (let n = (of_char c :: nat) in
      if (65 \<le> n \<and> n \<le> 90) \<or> (192 \<le> n \<and> n \<le> 214) \<or> (216 \<le> n \<and> n \<le> 222)
      then char_of (n + 32) else c)"

definition toLowerCase :: "string \<Rightarrow> string" where
  "toLowerCase s = map toLowerCase_char s"

definition is_az09 :: "char \<Rightarrow> bool" where
  \<comment> \<open>the character class \<open>[a-z0-9]\<close>\<close>
  "is_az09 c \<longleftrightarrow>
     (let n = (of_char c :: nat) in (97 \<le> n \<and> n \<le> 122) \<or> (48 \<le> n \<and> n \<le> 57))"

definition blank_other :: "string \<Rightarrow> string" where
  \<comment> \<open>\<open>s.replace(/[^a-z0-9\s]/g, " ")\<close>\<close>
  "blank_other s = map (\<lambda>c. if is_az09 c \<or> is_space c then c else CHR '' '') s"

function split_ws :: "string \<Rightarrow> string list" where
  \<comment> \<open>\<open>s.split(/\s+/)\<close>: a leading or trailing run of white space leaves an empty
      first or last piece\<close>
  "split_ws s =
     (case dropWhile (\<lambda>c. \<not> is_space c) s of
        [] \<Rightarrow> [s]
      | r # rs \<Rightarrow> takeWhile (\<lambda>c. \<not> is_space c) s # split_ws (dropWhile is_space rs))"
  by pat_completeness auto
termination
proof (relation "measure length")
  fix s :: string and r rs
  assume a: "dropWhile (\<lambda>c. \<not> is_space c) s = r # rs"
  have "length (dropWhile is_space rs) \<le> length rs" by (rule length_dropWhile_le)
  moreover have "length (r # rs) \<le> length s"
    unfolding a[symmetric] by (rule length_dropWhile_le)
  ultimately show "(dropWhile is_space rs, s) \<in> measure length" by simp
qed simp

declare split_ws.simps [simp del]

definition extractBaseName :: "string \<Rightarrow> string \<Rightarrow> string" where
  "extractBaseName inputData testType =
     (let words = join ''-'' (take 3 (filter (\<lambda>word. length word > 2)
                    (split_ws (blank_other (toLowerCase inputData)))))
      in if words = [] then testType @ ''-case'' else words)"

definition extensions :: "(string \<times> string) list" where
  "extensions = [(''java'', ''.java''), (''python'', ''.py''), (''javascript'', ''.js'')]"

definition typePrefix :: "(string \<times> string) list" where
  "typePrefix = [(''bdd'', ''feature''), (''unit'', ''test''), (''api'', ''api-test''),
                 (''ui'', ''ui-test''), (''performance'', ''perf-test'')]"

definition generateFilename :: "string \<Rightarrow> string \<Rightarrow> string \<Rightarrow> string" where
  "generateFilename testType language inputData =
     (let baseName = extractBaseName inputData testType in
      if testType = ''bdd'' then baseName @ ''.feature''
      else if testType = ''performance'' then baseName @ ''.jmx''
      else
        (let prefix = (case map_of typePrefix testType of Some p \<Rightarrow> p | None \<Rightarrow> ''test'');
             extension = (case map_of extensions language of Some e \<Rightarrow> e | None \<Rightarrow> ''.txt'')
         in prefix @ ''-'' @ baseName @ extension))"

definition getFileExtension :: "string \<Rightarrow> string" where
  "getFileExtension language =
     (case map_of [(''java'', ''java''), (''python'', ''py''), (''javascript'', ''js'')] language of
        Some e \<Rightarrow> e | None \<Rightarrow> ''txt'')"

definition dependencyMap :: "(string \<times> (string \<times> string list) list) list" where
  "dependencyMap =
     [(''java'',
        [(''unit'', [''junit-jupiter'', ''mockito-core'', ''assertj-core'']),
         (''bdd'', [''cucumber-java'', ''cucumber-junit'', ''rest-assured'']),
         (''api'', [''rest-assured'', ''testng'', ''hamcrest'']),
         (''ui'', [''selenium-java'', ''webdrivermanager'', ''testng'']),
         (''performance'', [''apache-jmeter'', ''rest-assured'', ''micrometer-core''])]),
      (''python'',
        [(''unit'', [''pytest'', ''unittest.mock'', ''pytest-mock'']),
         (''bdd'', [''behave'', ''requests'', ''pytest-bdd'']),
         (''api'', [''requests'', ''pytest'', ''jsonschema'']),
         (''ui'', [''selenium'', ''pytest'', ''webdriver-manager'']),
         (''performance'', [''locust'', ''requests'', ''pytest''])]),
      (''javascript'',
        [(''unit'', [''jest'', ''@testing-library/react'', ''@testing-library/jest-dom'']),
         (''bdd'', [''cucumber'', ''axios'', ''chai'']),
         (''api'', [''axios'', ''jest'', ''supertest'']),
         (''ui'', [''selenium-webdriver'', ''jest'', ''webdriver-manager'']),
         (''performance'', [''artillery'', ''axios'', ''jest''])])]"

definition getDefaultDependencies :: "string \<Rightarrow> string \<Rightarrow> string list" where
  "getDefaultDependencies testType language =
     (case map_of dependencyMap language of
        None \<Rightarrow> []
      | Some m \<Rightarrow> (case map_of m testType of None \<Rightarrow> [] | Some ds \<Rightarrow> ds))"


section \<open>Fallback templates\<close>

record generated_test =
  test_type :: string  \<comment> \<open>field \<open>type\<close> of \<open>GeneratedTest\<close>\<close>
  content :: string
  filename :: string
  description :: string
  coverage :: "string list"
  dependencies :: "string list"
  category :: "string option"

record request =
  inputType :: string
  inputData :: string
  testTypes :: "string list"
  language :: string
  aiModel :: "string option"

text \<open>The literal template texts of \<open>generateBasicTestTemplate\<close>, line by line.\<close>

definition template_unit_java :: string where
  \<open>template_unit_java =
     join [CHR 0x0A]
     [''package com.example.test;'',
      '''',
      ''import org.junit.jupiter.api.Test;'',
      ''import org.junit.jupiter.api.BeforeEach;'',
      ''import org.junit.jupiter.api.DisplayName;'',
      ''import static org.junit.jupiter.api.Assertions.*;'',
      '''',
      ''@DisplayName("Generated Unit Test")'',
      ''public class GeneratedTest {'',
      ''    '',
      ''    @BeforeEach'',
      ''    void setUp() {'',
      ''        // Setup test data'',
      ''    }'',
      ''    '',
      ''    @Test'',
      ''    @DisplayName("Should test basic functionality")'',
      ''    void testBasicFunctionality() {'',
      ''        // Arrange'',
      ''        String input = "test";'',
      ''        '',
      ''        // Act'',
      ''        String result = processInput(input);'',
      ''        '',
      ''        // Assert'',
      ''        assertNotNull(result);'',
      ''        assertEquals("expected", result);'',
      ''    }'',
      ''    '',
      ''    @Test'',
      ''    @DisplayName("Should handle null input")'',
      ''    void testNullInput() {'',
      ''        // Test null handling'',
      ''        assertThrows(IllegalArgumentException.class, () -> {'',
      ''            processInput(null);'',
      ''        });'',
      ''    }'',
      ''    '',
      ''    private String processInput(String input) {'',
      ''        if (input == null) {'',
      ''            throw new IllegalArgumentException("Input cannot be null");'',
      ''        }'',
      ''        return "processed: " + input;'',
      ''    }'',
      ''}'']\<close>

definition template_unit_python :: string where
  \<open>template_unit_python =
     join [CHR 0x0A]
     [''import unittest'',
      ''from unittest.mock import Mock, patch'',
      '''',
      ''class TestGenerated(unittest.TestCase):'',
      ''    '',
      ''    def setUp(self):'',
      ''        """Set up test fixtures"""'',
      ''        self.test_data = "test_input"'',
      ''    '',
      ''    def test_basic_functionality(self):'',
      ''        """Test basic functionality"""'',
      ''        # Arrange'',
      ''        input_data = self.test_data'',
      ''        '',
      ''        # Act'',
      ''        result = self.process_input(input_data)'',
      ''        '',
      ''        # Assert'',
      ''        self.assertIsNotNone(result)'',
      ''        self.assertEqual("processed: test_input", result)'',
      ''    '',
      ''    def test_none_input(self):'',
      ''        """Test handling of None input"""'',
      ''        with self.assertRaises(ValueError):'',
      ''            self.process_input(None)'',
      ''    '',
      ''    def process_input(self, input_data):'',
      ''        """Process input data"""'',
      ''        if input_data is None:'',
      ''            raise ValueError("Input cannot be None")'',
      ''        return f"processed: {input_data}"'',
      '''',
      ''if __name__ == \'__main__\':'',
      ''    unittest.main()'']\<close>

definition template_unit_javascript :: string where
  \<open>template_unit_javascript =
     join [CHR 0x0A]
     [''const { describe, it, expect, beforeEach } = require(\'@jest/globals\');'',
      '''',
      ''describe(\'Generated Test Suite\', () => {'',
      ''    let testData;'',
      ''    '',
      ''    beforeEach(() => {'',
      ''        testData = \'test_input\';'',
      ''    });'',
      ''    '',
      ''    it(\'should test basic functionality\', () => {'',
      ''        // Arrange'',
      ''        const input = testData;'',
      ''        '',
      ''        // Act'',
      ''        const result = processInput(input);'',
      ''        '',
      ''        // Assert'',
      ''        expect(result).toBeDefined();'',
      ''        expect(result).toBe(\'processed: test_input\');'',
      ''    });'',
      ''    '',
      ''    it(\'should handle null input\', () => {'',
      ''        // Test null handling'',
      ''        expect(() => {'',
      ''            processInput(null);'',
      ''        }).toThrow(\'Input cannot be null\');'',
      ''    });'',
      ''    '',
      ''    function processInput(input) {'',
      ''        if (input === null || input === undefined) {'',
      ''            throw new Error(\'Input cannot be null\');'',
      ''        }'',
      ''        return `processed: ${input}`;'',
      ''    }'',
      ''});'']\<close>

definition template_bdd_feature :: string where
  \<open>template_bdd_feature =
     join [CHR 0x0A]
     [''Feature: Generated Feature'',
      ''  As a user'',
      ''  I want to test functionality'',
      ''  So that I can ensure quality'',
      '''',
      ''  Background:'',
      ''    Given the system is initialized'',
      ''    And test data is prepared'',
      '''',
      ''  @smoke'',
      ''  Scenario: Basic functionality test'',
      ''    Given I have valid input data'',
      ''    When I process the data'',
      ''    Then I should get expected results'',
      ''    And the system should remain stable'',
      '''',
      ''  @regression'',
      ''  Scenario Outline: Data validation test'',
      ''    Given I have input data "<input>"'',
      ''    When I validate the data'',
      ''    Then the result should be "<result>"'',
      ''    '',
      ''    Examples:'',
      ''      | input    | result  |'',
      ''      | valid    | success |'',
      ''      | invalid  | error   |'',
      ''      | empty    | error   |'',
      '''',
      ''  @error-handling'',
      ''  Scenario: Error handling test'',
      ''    Given I have invalid input'',
      ''    When I process the data'',
      ''    Then I should get an error message'',
      ''    And the error should be logged'']\<close>

definition template_api_java :: string where
  \<open>template_api_java =
     join [CHR 0x0A]
     [''package com.example.api.test;'',
      '''',
      ''import io.restassured.RestAssured;'',
      ''import io.restassured.response.Response;'',
      ''import org.testng.annotations.BeforeClass;'',
      ''import org.testng.annotations.Test;'',
      ''import static io.restassured.RestAssured.*;'',
      ''import static org.hamcrest.Matchers.*;'',
      '''',
      ''public class GeneratedAPITest {'',
      ''    '',
      ''    @BeforeClass'',
      ''    public void setup() {'',
      ''        RestAssured.baseURI = "http://localhost:8080";'',
      ''        RestAssured.basePath = "/api";'',
      ''    }'',
      ''    '',
      ''    @Test'',
      ''    public void testGetEndpoint() {'',
      ''        given()'',
      ''            .header("Content-Type", "application/json")'',
      ''        .when()'',
      ''            .get("/users")'',
      ''        .then()'',
      ''            .statusCode(200)'',
      ''            .body("size()", greaterThan(0));'',
      ''    }'',
      ''    '',
      ''    @Test'',
      ''    public void testPostEndpoint() {'',
      ''        String requestBody = "{'' @ [CHR 0x5C] @ ''"name'' @ [CHR 0x5C] @ ''": '' @ [CHR 0x5C] @ ''"John'' @ [CHR 0x5C] @ ''", '' @ [CHR 0x5C] @ ''"email'' @ [CHR 0x5C] @ ''": '' @ [CHR 0x5C] @ ''"john@example.com'' @ [CHR 0x5C] @ ''"}";'',
      ''        '',
      ''        given()'',
      ''            .header("Content-Type", "application/json")'',
      ''            .body(requestBody)'',
      ''        .when()'',
      ''            .post("/users")'',
      ''        .then()'',
      ''            .statusCode(201)'',
      ''            .body("name", equalTo("John"))'',
      ''            .body("email", equalTo("john@example.com"));'',
      ''    }'',
      ''    '',
      ''    @Test'',
      ''    public void testErrorHandling() {'',
      ''        given()'',
      ''            .header("Content-Type", "application/json")'',
      ''        .when()'',
      ''            .get("/users/999999")'',
      ''        .then()'',
      ''            .statusCode(404)'',
      ''            .body("error", notNullValue());'',
      ''    }'',
      ''}'']\<close>

definition template_ui_java :: string where
  \<open>template_ui_java =
     join [CHR 0x0A]
     [''package com.example.ui.test;'',
      '''',
      ''import org.openqa.selenium.WebDriver;'',
      ''import org.openqa.selenium.WebElement;'',
      ''import org.openqa.selenium.support.FindBy;'',
      ''import org.openqa.selenium.support.PageFactory;'',
      ''import org.openqa.selenium.support.ui.WebDriverWait;'',
      ''import org.testng.annotations.AfterMethod;'',
      ''import org.testng.annotations.BeforeMethod;'',
      ''import org.testng.annotations.Test;'',
      ''import io.github.bonigarcia.wdm.WebDriverManager;'',
      ''import org.openqa.selenium.chrome.ChromeDriver;'',
      ''import static org.testng.Assert.*;'',
      '''',
      ''public class GeneratedUITest {'',
      ''    '',
      ''    private WebDriver driver;'',
      ''    private WebDriverWait wait;'',
      ''    '',
      ''    @FindBy(id = "email")'',
      ''    private WebElement emailField;'',
      ''    '',
      ''    @FindBy(id = "password")'',
      ''    private WebElement passwordField;'',
      ''    '',
      ''    @FindBy(id = "submit")'',
      ''    private WebElement submitButton;'',
      ''    '',
      ''    @BeforeMethod'',
      ''    public void setup() {'',
      ''        WebDriverManager.chromedriver().setup();'',
      ''        driver = new ChromeDriver();'',
      ''        wait = new WebDriverWait(driver, 10);'',
      ''        PageFactory.initElements(driver, this);'',
      ''    }'',
      ''    '',
      ''    @Test'',
      ''    public void testLoginForm() {'',
      ''        driver.get("http://localhost:3000/login");'',
      ''        '',
      ''        emailField.sendKeys("test@example.com");'',
      ''        passwordField.sendKeys("password123");'',
      ''        submitButton.click();'',
      ''        '',
      ''        // Verify successful login'',
      ''        assertTrue(driver.getCurrentUrl().contains("dashboard"));'',
      ''    }'',
      ''    '',
      ''    @Test'',
      ''    public void testFormValidation() {'',
      ''        driver.get("http://localhost:3000/login");'',
      ''        '',
      ''        submitButton.click();'',
      ''        '',
      ''        // Verify validation messages'',
      ''        assertTrue(emailField.getAttribute("validationMessage").contains("required"));'',
      ''    }'',
      ''    '',
      ''    @AfterMethod'',
      ''    public void tearDown() {'',
      ''        if (driver != null) {'',
      ''            driver.quit();'',
      ''        }'',
      ''    }'',
      ''}'']\<close>

definition template_performance_jmx :: string where
  \<open>template_performance_jmx =
     join [CHR 0x0A]
     [''<?xml version="1.0" encoding="UTF-8"?>'',
      ''<jmeterTestPlan version="1.2">'',
      ''  <hashTree>'',
      ''    <TestPlan guiclass="TestPlanGui" testclass="TestPlan" testname="Generated Performance Test">'',
      ''      <stringProp name="TestPlan.comments">Generated performance test plan</stringProp>'',
      ''      <boolProp name="TestPlan.functional_mode">false</boolProp>'',
      ''      <boolProp name="TestPlan.serialize_threadgroups">false</boolProp>'',
      ''      <elementProp name="TestPlan.arguments" elementType="Arguments" guiclass="ArgumentsPanel">'',
      ''        <collectionProp name="Arguments.arguments"/>'',
      ''      </elementProp>'',
      ''      <stringProp name="TestPlan.user_define_classpath"></stringProp>'',
      ''    </TestPlan>'',
      ''    <hashTree>'',
      ''      <ThreadGroup guiclass="ThreadGroupGui" testclass="ThreadGroup" testname="Load Test">'',
      ''        <stringProp name="ThreadGroup.on_sample_error">continue</stringProp>'',
      ''        <elementProp name="ThreadGroup.main_controller" elementType="LoopController">'',
      ''          <boolProp name="LoopController.continue_forever">false</boolProp>'',
      ''          <stringProp name="LoopController.loops">10</stringProp>'',
      ''        </elementProp>'',
      ''        <stringProp name="ThreadGroup.num_threads">50</stringProp>'',
      ''        <stringProp name="ThreadGroup.ramp_time">60</stringProp>'',
      ''        <longProp name="ThreadGroup.start_time">1</longProp>'',
      ''        <longProp name="ThreadGroup.end_time">1</longProp>'',
      ''        <boolProp name="ThreadGroup.scheduler">false</boolProp>'',
      ''        <stringProp name="ThreadGroup.duration"></stringProp>'',
      ''        <stringProp name="ThreadGroup.delay"></stringProp>'',
      ''      </ThreadGroup>'',
      ''      <hashTree>'',
      ''        <HTTPSamplerProxy guiclass="HttpTestSampleGui" testclass="HTTPSamplerProxy" testname="API Request">'',
      ''          <elementProp name="HTTPsampler.Arguments" elementType="Arguments">'',
      ''            <collectionProp name="Arguments.arguments"/>'',
      ''          </elementProp>'',
      ''          <stringProp name="HTTPSampler.domain">localhost</stringProp>'',
      ''          <stringProp name="HTTPSampler.port">8080</stringProp>'',
      ''          <stringProp name="HTTPSampler.protocol">http</stringProp>'',
      ''          <stringProp name="HTTPSampler.contentEncoding"></stringProp>'',
      ''          <stringProp name="HTTPSampler.path">/api/users</stringProp>'',
      ''          <stringProp name="HTTPSampler.method">GET</stringProp>'',
      ''          <boolProp name="HTTPSampler.follow_redirects">true</boolProp>'',
      ''          <boolProp name="HTTPSampler.auto_redirects">false</boolProp>'',
      ''          <boolProp name="HTTPSampler.use_keepalive">true</boolProp>'',
      ''        </HTTPSamplerProxy>'',
      ''      </hashTree>'',
      ''    </hashTree>'',
      ''  </hashTree>'',
      ''</jmeterTestPlan>'']\<close>

definition templates :: "(string \<times> (string \<times> string) list) list" where
  "templates =
     [(''unit'', [(''java'', template_unit_java), (''python'', template_unit_python),
                  (''javascript'', template_unit_javascript)]),
      (''bdd'', [(''feature'', template_bdd_feature)]),
      (''api'', [(''java'', template_api_java)]),
      (''ui'', [(''java'', template_ui_java)]),
      (''performance'', [(''jmx'', template_performance_jmx)])]"

definition lookup_or_empty :: "(string \<times> string) list \<Rightarrow> string \<Rightarrow> string" where
  \<comment> \<open>a property read whose missing value is falsy, as the empty string is\<close>
  "lookup_or_empty tbl k = (case map_of tbl k of Some v \<Rightarrow> v | None \<Rightarrow> [])"

definition generateBasicTestTemplate :: "request \<Rightarrow> string \<Rightarrow> generated_test option" where
  "generateBasicTestTemplate request testType =
     (case map_of templates testType of
        None \<Rightarrow> None
      | Some testTemplate \<Rightarrow>
          (let (content, filename) =
                 (if testType = ''bdd''
                  then (lookup_or_empty testTemplate ''feature'', ''generated-test.feature'')
                  else if testType = ''performance''
                  then (lookup_or_empty testTemplate ''jmx'', ''performance-test.jmx'')
                  else
                    ((if lookup_or_empty testTemplate (language request) \<noteq> []
                      then lookup_or_empty testTemplate (language request)
                      else lookup_or_empty testTemplate ''java''),
                     generateFilename testType (language request) (inputData request)))
           in if content = [] then None
              else Some \<lparr>test_type = testType,
                         content = content,
                         filename = filename,
                         description = ''Template-based '' @ testType @ '' test for '' @ inputType request,
                         coverage = [''Basic '' @ testType @ '' testing'', ''Template-generated'',
                                     ''Fallback implementation''],
                         dependencies = getDefaultDependencies testType (language request),
                         category = Some ''main''\<rparr>))"

definition generateTestFromTemplate :: "request \<Rightarrow> string \<Rightarrow> generated_test list" where
  "generateTestFromTemplate request testType =
     (case generateBasicTestTemplate request testType of Some template \<Rightarrow> [template] | None \<Rightarrow> [])"


section \<open>The generation pipeline\<close>

text \<open>
  The analysis is read at the type the source declares for it. Of an analysis object the
  record keeps \<open>testableClasses\<close>, which alone decides what is generated, and the fields
  of the fallback object of \<open>getFallbackAnalysis\<close>. The other fields (\<open>structure\<close>,
  \<open>dependencies\<close>, \<open>frameworks\<close> and \<open>apiEndpoints\<close> of a project analysis, and those
  of the page and Postman analyses) only feed prompt texts and are left out. A class
  descriptor keeps the fields that reach an artifact.
\<close>

record testable_class =
  className :: "string option"
  package :: "string option"
  methods :: "string list option"

record analysis =
  testableClasses :: "testable_class list option"
  complexity :: "string option"
  estimatedExecutionTime :: "int option"
  riskAreas :: "string list option"
  recommendations :: "string list option"
  testableComponents :: "string list option"

definition empty_analysis :: analysis where
  \<comment> \<open>an object with none of these fields\<close>
  "empty_analysis =
     \<lparr>testableClasses = None, complexity = None, estimatedExecutionTime = None,
      riskAreas = None, recommendations = None, testableComponents = None\<rparr>"

record uploaded_file =
  file_name :: string
  file_content :: string
  file_elements :: "string list"  \<comment> \<open>\<open>analysis.testableElements\<close>\<close>

text \<open>
  What the pipeline does not own is a parameter:
  \<^item> \<open>apiKey\<close>: whether \<open>GOOGLE_GENERATIVE_AI_API_KEY\<close> is set;
  \<^item> \<open>llm n\<close>: the outcome of the \<open>n\<close>-th call of \<open>generateText\<close>, the message of
    the error it throws (\<open>Inl\<close>) or the text it returns (\<open>Inr\<close>); prompts are not
    modelled, since the outcome is not a function of them;
  \<^item> \<open>parseAnalysis\<close>: \<open>JSON.parse\<close> read at the analysis type, \<open>None\<close> when it throws;
  \<^item> \<open>testableElements name content\<close>: the regular-expression scan of an uploaded file
    (\<open>extractJavaElements\<close>, \<open>extractPythonElements\<close>, \<open>extractJavaScriptElements\<close>);
  \<^item> \<open>classTemplateText\<close>, \<open>suiteRunnerText\<close>: the interpolated texts of
    \<open>generateClassSpecificTemplate\<close> and \<open>generateTestSuiteRunner\<close>.
\<close>

record env =
  apiKey :: bool
  llm :: "nat \<Rightarrow> string + string"
  parseAnalysis :: "string \<Rightarrow> analysis option"
  testableElements :: "string \<Rightarrow> string \<Rightarrow> string list"
  classTemplateText :: "string \<Rightarrow> testable_class \<Rightarrow> string"
  suiteRunnerText :: "string \<Rightarrow> generated_test list \<Rightarrow> string"

definition api_key_error :: string where
  "api_key_error = ''Google AI Studio API key not found. Please set GOOGLE_GENERATIVE_AI_API_KEY in your environment variables.''"

definition getFallbackAnalysis :: "request \<Rightarrow> analysis" where
  "getFallbackAnalysis request =
     \<lparr>testableClasses = None,
      complexity = Some ''medium'',
      estimatedExecutionTime = Some 30,
      riskAreas = Some [''Data validation'', ''Error handling''],
      recommendations = Some [''Add edge case testing'', ''Include negative scenarios''],
      testableComponents = Some [''main functionality'', ''error handling'',
                                 ''data validation'']\<rparr>"

definition inferProjectStructure :: "string \<Rightarrow> analysis" where
  "inferProjectStructure repoUrl =
     empty_analysis
       \<lparr>testableClasses := Some
          [\<lparr>className = Some ''UserService'',
            package = Some ''com.example.service'',
            methods = Some [''createUser'', ''findUser'', ''updateUser'', ''deleteUser'']\<rparr>],
        complexity := Some ''medium''\<rparr>"

definition inferPageStructure :: "string \<Rightarrow> analysis" where
  \<comment> \<open>\<open>pageType\<close>, \<open>elements\<close>, \<open>workflows\<close>, \<open>validations\<close>: none of the fields kept\<close>
  "inferPageStructure webUrl = empty_analysis"

definition ask_analysis :: "env \<Rightarrow> analysis \<Rightarrow> nat \<Rightarrow> analysis \<times> nat" where
  \<comment> \<open>the body shared by the analyzers: one model call, the response cleaned and parsed,
      and the given fallback when the call or the parse throws\<close>
  "ask_analysis E fallback n =
     (case llm E n of
        Inl e \<Rightarrow> (fallback, Suc n)
      | Inr text \<Rightarrow>
          (case parseAnalysis E (extractJsonFromResponse text) of
             None \<Rightarrow> (fallback, Suc n)
           | Some a \<Rightarrow> (a, Suc n)))"

definition analyzeInput :: "env \<Rightarrow> request \<Rightarrow> nat \<Rightarrow> analysis \<times> nat" where
  "analyzeInput E request n = ask_analysis E (getFallbackAnalysis request) n"

definition analyzeGitRepository :: "env \<Rightarrow> string \<Rightarrow> nat \<Rightarrow> analysis \<times> nat" where
  "analyzeGitRepository E repoUrl n = ask_analysis E (inferProjectStructure repoUrl) n"

definition analyzePostmanCollection :: "env \<Rightarrow> string \<Rightarrow> nat \<Rightarrow> analysis \<times> nat" where
  \<comment> \<open>the fallback is \<open>{ endpoints: [], workflows: [] }\<close>\<close>
  "analyzePostmanCollection E collectionData n = ask_analysis E empty_analysis n"

definition analyzeWebPage :: "env \<Rightarrow> string \<Rightarrow> nat \<Rightarrow> analysis \<times> nat" where
  "analyzeWebPage E webUrl n = ask_analysis E (inferPageStructure webUrl) n"

function split_on :: "string \<Rightarrow> string \<Rightarrow> string list" where
  \<comment> \<open>\<open>s.split(sep)\<close> for a non-empty literal \<open>sep\<close>\<close>
  "split_on sep s =
     (if s = [] \<or> sep = [] then [s]
      else if startsWith s sep then [] # split_on sep (drop (length sep) s)
      else (hd s # hd (split_on sep (tl s))) # tl (split_on sep (tl s)))"
  by pat_completeness auto
termination
  by (relation "measure (\<lambda>(sep, s). length s)") auto

declare split_on.simps [simp del]

definition strip_extension :: "string \<Rightarrow> string" where
  \<comment> \<open>\<open>name.replace(/\.[^.]+$/, "")\<close>: a last dot with something after it goes, with
      what follows\<close>
  "strip_extension name =
     (let ext = takeWhile (\<lambda>c. c \<noteq> CHR ''.'') (rev name) in
      if ext \<noteq> [] \<and> length ext < length name then take (length name - length ext - 1) name
      else name)"

definition parseUploadedFiles :: "env \<Rightarrow> string \<Rightarrow> uploaded_file list" where
  "parseUploadedFiles E data =
     map (\<lambda>block.
            (let lines = split_nl (trim block);
                 fileName = trim (hd lines);
                 content = join [CHR 0x0A] (tl lines)
             in \<lparr>file_name = fileName, file_content = content,
                 file_elements = testableElements E fileName content\<rparr>))
         (tl (split_on ''// File:'' data))"

definition generateFallbackProjectAnalysis :: "uploaded_file list \<Rightarrow> analysis" where
  "generateFallbackProjectAnalysis files =
     empty_analysis
       \<lparr>testableClasses := Some (take 20 (concat (map
          (\<lambda>file. map (\<lambda>element. \<lparr>className = Some element,
                                    package = Some (strip_extension (file_name file)),
                                    methods = Some [''testMethod'']\<rparr>)
                       (file_elements file))
          files))),
        complexity := Some (if length files > 20 then ''high''
                            else if length files > 10 then ''medium'' else ''low'')\<rparr>"

definition analyzeUploadedFiles :: "env \<Rightarrow> uploaded_file list \<Rightarrow> nat \<Rightarrow> analysis \<times> nat" where
  "analyzeUploadedFiles E files n =
     (case llm E n of
        Inl e \<Rightarrow> (generateFallbackProjectAnalysis files, Suc n)
      | Inr text \<Rightarrow>
          (case parseAnalysis E (extractJsonFromResponse text) of
             None \<Rightarrow> (generateFallbackProjectAnalysis files, Suc n)
           | Some a \<Rightarrow>
               (empty_analysis
                  \<lparr>testableClasses :=
                     Some (case testableClasses a of Some cs \<Rightarrow> cs | None \<Rightarrow> []),
                   complexity :=
                     Some (case complexity a of
                             Some c \<Rightarrow> if c = [] then ''medium'' else c
                           | None \<Rightarrow> ''medium'')\<rparr>, Suc n)))"

definition single_test ::
  "env \<Rightarrow> request \<Rightarrow> string \<Rightarrow> string \<Rightarrow> string list \<Rightarrow> nat \<Rightarrow> (string + generated_test) \<times> nat" where
  \<comment> \<open>the body shared by the five \<open>generateSingle...Test\<close> functions: one model call,
      whose error is not caught here, and the text packaged as the artifact\<close>
  "single_test E request kind what cov n =
     (case llm E n of
        Inl e \<Rightarrow> (Inl e, Suc n)
      | Inr text \<Rightarrow>
          (Inr \<lparr>test_type = kind,
                content = text,
                filename = generateFilename kind (language request) (inputData request),
                description = what @ '' for '' @ inputType request,
                coverage = cov,
                dependencies = getDefaultDependencies kind (language request),
                category = Some ''main''\<rparr>, Suc n))"

definition generateSingleUnitTest :: "env \<Rightarrow> request \<Rightarrow> nat \<Rightarrow> (string + generated_test) \<times> nat" where
  "generateSingleUnitTest E request n =
     single_test E request ''unit'' ''Unit test''
       [''Method functionality'', ''Edge cases'', ''Error handling''] n"

definition generateSingleBDDTest :: "env \<Rightarrow> request \<Rightarrow> nat \<Rightarrow> (string + generated_test) \<times> nat" where
  "generateSingleBDDTest E request n =
     single_test E request ''bdd'' ''BDD scenarios''
       [''User workflows'', ''Business rules'', ''Integration scenarios''] n"

definition generateSingleAPITest :: "env \<Rightarrow> request \<Rightarrow> nat \<Rightarrow> (string + generated_test) \<times> nat" where
  "generateSingleAPITest E request n =
     single_test E request ''api'' ''API tests''
       [''HTTP methods'', ''Status codes'', ''Data validation''] n"

definition generateSingleUITest :: "env \<Rightarrow> request \<Rightarrow> nat \<Rightarrow> (string + generated_test) \<times> nat" where
  "generateSingleUITest E request n =
     single_test E request ''ui'' ''UI tests''
       [''User interactions'', ''Form validation'', ''Navigation''] n"

definition generateSinglePerformanceTest ::
  "env \<Rightarrow> request \<Rightarrow> nat \<Rightarrow> (string + generated_test) \<times> nat" where
  "generateSinglePerformanceTest E request n =
     single_test E request ''performance'' ''Performance tests''
       [''Load testing'', ''Stress testing'', ''Scalability''] n"

definition shown :: "string option \<Rightarrow> string" where
  \<comment> \<open>a possibly missing string inside a template literal\<close>
  "shown v = (case v of Some s \<Rightarrow> s | None \<Rightarrow> ''undefined'')"

definition generateClassSpecificTemplate :: "env \<Rightarrow> request \<Rightarrow> testable_class \<Rightarrow> generated_test" where
  "generateClassSpecificTemplate E request testableClass =
     (let cn = (case className testableClass of
                  Some s \<Rightarrow> if s = [] then ''TestClass'' else s
                | None \<Rightarrow> ''TestClass'')
      in \<lparr>test_type = ''unit'',
          content = classTemplateText E (language request) testableClass,
          filename = cn @ ''Test.'' @ getFileExtension (language request),
          description = ''Template-based unit tests for '' @ cn,
          coverage = [cn @ '' methods'', ''Basic functionality'', ''Error handling''],
          dependencies = getDefaultDependencies ''unit'' (language request),
          category = Some ''main''\<rparr>)"

definition generateTestSuiteRunner :: "env \<Rightarrow> request \<Rightarrow> generated_test list \<Rightarrow> generated_test" where
  "generateTestSuiteRunner E request tests =
     \<lparr>test_type = ''unit'',
      content = suiteRunnerText E (language request) tests,
      filename = ''TestSuite.'' @ getFileExtension (language request),
      description = ''Complete unit test suite runner'',
      coverage = [''All project classes'', ''Test execution'', ''Coverage reporting''],
      dependencies = getDefaultDependencies ''unit'' (language request) @ [''test-runner''],
      category = Some ''runner''\<rparr>"

fun class_tests :: "env \<Rightarrow> request \<Rightarrow> testable_class list \<Rightarrow> nat \<Rightarrow> generated_test list \<times> nat" where
  \<comment> \<open>the loop over the classes in \<open>generateProjectLevelUnitTests\<close>: a model call per
      class, and the class template when it throws\<close>
  "class_tests E request [] n = ([], n)"
| "class_tests E request (testableClass # rest) n =
     (let t = (case llm E n of
                 Inr text \<Rightarrow>
                   \<lparr>test_type = ''unit'',
                    content = text,
                    filename = shown (className testableClass) @ ''Test.''
                                 @ getFileExtension (language request),
                    description = ''Comprehensive unit tests for '' @ shown (className testableClass),
                    coverage = [''All methods of '' @ shown (className testableClass),
                                ''Edge cases and error scenarios'', ''Dependency mocking'',
                                ''Exception handling''],
                    dependencies = getDefaultDependencies ''unit'' (language request),
                    category = Some ''main''\<rparr>
               | Inl e \<Rightarrow> generateClassSpecificTemplate E request testableClass);
          (ts, n') = class_tests E request rest (Suc n)
      in (t # ts, n'))"

definition generateProjectLevelUnitTests ::
  "env \<Rightarrow> request \<Rightarrow> testable_class list \<Rightarrow> nat \<Rightarrow> generated_test list \<times> nat" where
  "generateProjectLevelUnitTests E request classes n =
     (let (tests, n') = class_tests E request (take 10 classes) n
      in if length tests > 1 then (tests @ [generateTestSuiteRunner E request tests], n')
         else (tests, n'))"

definition lift_single :: "(string + generated_test) \<times> nat \<Rightarrow> (string + generated_test list) \<times> nat" where
  \<comment> \<open>\<open>tests.push(await ...)\<close> on an empty list\<close>
  "lift_single r = (case r of (Inl e, n) \<Rightarrow> (Inl e, n) | (Inr t, n) \<Rightarrow> (Inr [t], n))"

definition generateSpecificTestType ::
  "env \<Rightarrow> request \<Rightarrow> string \<Rightarrow> analysis \<Rightarrow> nat \<Rightarrow> (string + generated_test list) \<times> nat" where
  "generateSpecificTestType E request testType a n =
     (if testType = ''unit'' then
        (case testableClasses a of
           Some classes \<Rightarrow>
             if length classes > 1
             then (let (tests, n') = generateProjectLevelUnitTests E request classes n
                   in (Inr tests, n'))
             else lift_single (generateSingleUnitTest E request n)
         | None \<Rightarrow> lift_single (generateSingleUnitTest E request n))
      else if testType = ''bdd'' then lift_single (generateSingleBDDTest E request n)
      else if testType = ''api'' then lift_single (generateSingleAPITest E request n)
      else if testType = ''ui'' then lift_single (generateSingleUITest E request n)
      else if testType = ''performance'' then lift_single (generateSinglePerformanceTest E request n)
      else (Inr [], n))"

definition ai_attempt ::
  "env \<Rightarrow> request \<Rightarrow> string \<Rightarrow> analysis \<Rightarrow> nat \<Rightarrow> (string + generated_test list) \<times> nat" where
  \<comment> \<open>the per-kind generation call: \<open>getAIModel\<close>, then \<open>generateSpecificTestType\<close>\<close>
  "ai_attempt E request testType a n =
     (if \<not> apiKey E then (Inl api_key_error, n)
      else generateSpecificTestType E request testType a n)"

definition tests_for_kind ::
  "env \<Rightarrow> request \<Rightarrow> bool \<Rightarrow> analysis \<Rightarrow> string \<Rightarrow> nat \<Rightarrow> generated_test list \<times> nat" where
  \<comment> \<open>one round of the loop over \<open>request.testTypes\<close>: what it pushes\<close>
  "tests_for_kind E request useAI a testType n =
     (if useAI then
        (case ai_attempt E request testType a n of
           (Inr generatedTests, n') \<Rightarrow> (generatedTests, n')
         | (Inl message, n') \<Rightarrow>
             if includes_str message ''quota'' \<or> includes_str message ''429''
             then (generateTestFromTemplate request testType, n')
             else (case generateBasicTestTemplate request testType of
                     Some fallbackTest \<Rightarrow> ([fallbackTest], n')
                   | None \<Rightarrow> ([], n')))
      else (generateTestFromTemplate request testType, n))"

fun generate_loop ::
  "env \<Rightarrow> request \<Rightarrow> bool \<Rightarrow> analysis \<Rightarrow> string list \<Rightarrow> nat \<Rightarrow> generated_test list" where
  "generate_loop E request useAI a [] n = []"
| "generate_loop E request useAI a (testType # rest) n =
     (let (ts, n') = tests_for_kind E request useAI a testType n
      in ts @ generate_loop E request useAI a rest n')"

definition analysis_phase :: "env \<Rightarrow> request \<Rightarrow> bool \<times> analysis \<times> nat" where
  \<comment> \<open>the first \<open>try\<close> of \<open>generateTestCases\<close>: \<open>(useAI, analysis, calls made)\<close>\<close>
  "analysis_phase E request =
     (if \<not> apiKey E then (False, getFallbackAnalysis request, 0)
      else
        (let (a, n) =
           (if inputType request = ''git_repo'' then analyzeGitRepository E (inputData request) 0
            else if inputType request = ''postman_collection''
            then analyzePostmanCollection E (inputData request) 0
            else if inputType request = ''web_url'' then analyzeWebPage E (inputData request) 0
            else if inputType request = ''code'' then
              (if includes_str (inputData request) ''// File:''
               then analyzeUploadedFiles E (parseUploadedFiles E (inputData request)) 0
               else analyzeInput E request 0)
            else analyzeInput E request 0)
         in (True, a, n)))"

definition no_tests_error :: string where
  "no_tests_error = ''Unable to generate any tests. Please try again later or check your quota limits.''"

definition generateTestCases :: "env \<Rightarrow> request \<Rightarrow> string + generated_test list" where
  "generateTestCases E request =
     (let (useAI, a, n) = analysis_phase E request;
          tests = generate_loop E request useAI a (testTypes request) n
      in if tests = [] then
           (case (case testTypes request of [] \<Rightarrow> None
                  | first # rest \<Rightarrow> generateBasicTestTemplate request first) of
              Some basicTest \<Rightarrow> Inr [basicTest]
            | None \<Rightarrow> Inl no_tests_error)
         else Inr tests)"

text \<open>
  The hypothesis of the claim on total failure: with the model in use, the per-kind
  generation call throws for each kind of the list, in the order the loop makes the calls.
\<close>

fun every_attempt_throws :: "env \<Rightarrow> request \<Rightarrow> analysis \<Rightarrow> string list \<Rightarrow> nat \<Rightarrow> bool" where
  "every_attempt_throws E request a [] n = True"
| "every_attempt_throws E request a (testType # rest) n =
     (case ai_attempt E request testType a n of
        (Inl message, n') \<Rightarrow> every_attempt_throws E request a rest n'
      | (Inr generatedTests, n') \<Rightarrow> False)"

definition valid_kinds :: "string set" where
  "valid_kinds = {''bdd'', ''unit'', ''api'', ''ui'', ''performance''}"

text \<open>
  Requests that the dispatch on the input type hands to \<open>analyzeInput\<close>; the fallback
  object that the analyzer chosen by the dispatch returns from its \<open>catch\<close>; and the
  analyses that do not send unit tests to the project-level generation.
\<close>

definition fallback_for :: "env \<Rightarrow> request \<Rightarrow> analysis" where
  "fallback_for E request =
     (if inputType request = ''git_repo'' then inferProjectStructure (inputData request)
      else if inputType request = ''postman_collection'' then empty_analysis
      else if inputType request = ''web_url'' then inferPageStructure (inputData request)
      else if inputType request = ''code'' \<and> includes_str (inputData request) ''// File:''
      then generateFallbackProjectAnalysis (parseUploadedFiles E (inputData request))
      else getFallbackAnalysis request)"

definition few_classes :: "analysis \<Rightarrow> bool" where
  "few_classes a \<longleftrightarrow> (case testableClasses a of Some classes \<Rightarrow> length classes \<le> 1 | None \<Rightarrow> True)"

definition routes_to_analyzeInput :: "request \<Rightarrow> bool" where
  "routes_to_analyzeInput request \<longleftrightarrow>
     inputType request \<notin> {''git_repo'', ''postman_collection'', ''web_url''}
     \<and> (inputType request = ''code'' \<longrightarrow> \<not> includes_str (inputData request) ''// File:'')"

text \<open>Concrete surroundings and requests, for evaluation.\<close>

definition failing_env :: env where
  \<comment> \<open>the key is set and every model call throws\<close>
  "failing_env =
     \<lparr>apiKey = True, llm = (\<lambda>n. Inl ''503 Service Unavailable''),
      parseAnalysis = (\<lambda>s. None), testableElements = (\<lambda>name text. []),
      classTemplateText = (\<lambda>lang c. []), suiteRunnerText = (\<lambda>lang tests. [])\<rparr>"

definition malformed_env :: env where
  \<comment> \<open>every model call returns a text that does not parse\<close>
  "malformed_env =
     \<lparr>apiKey = True, llm = (\<lambda>n. Inr ''Here is the analysis you asked for''),
      parseAnalysis = (\<lambda>s. None), testableElements = (\<lambda>name text. []),
      classTemplateText = (\<lambda>lang c. []), suiteRunnerText = (\<lambda>lang tests. [])\<rparr>"

definition login_request :: request where
  \<comment> \<open>the request of \<open>testAIService\<close>\<close>
  "login_request =
     \<lparr>inputType = ''user_story'',
      inputData = ''As a user, I want to login to the system so that I can access my dashboard'',
      testTypes = [''unit''], language = ''java'', aiModel = Some ''gemini-1.5-pro''\<rparr>"

definition two_kind_request :: request where
  "two_kind_request = login_request\<lparr>testTypes := [''api'', ''unit'']\<rparr>"


section \<open>Tokens\<close>

record auth_user =
  au_id :: string
  au_email :: string
  au_name :: string
  au_role :: string
  au_plan :: string

record token_payload =
  \<comment> \<open>the object handed to \<open>jwt.sign\<close>, and what \<open>jwt.verify\<close> gives back\<close>
  tp_id :: string
  tp_email :: string
  tp_role :: string
  tp_plan :: string

text \<open>
  The surroundings of the request handlers:
  \<^item> \<open>jwt_sign payload secret expiresIn\<close> and \<open>jwt_verify token secret\<close>: the token
    library, the latter with the message of the error it throws (\<open>Inl\<close>) or the
    decoded payload (\<open>Inr\<close>);
  \<^item> \<open>secret_env\<close>: the environment variable \<open>JWT_SECRET\<close>;
  \<^item> \<open>newId k\<close>: the \<open>k\<close>-th result of \<open>generateId\<close>, and \<open>random k\<close>: the \<open>k\<close>-th
    result of \<open>Math.random\<close> in a handler, as a real number;
  \<^item> \<open>clock\<close> and \<open>isoDate\<close>: the database's \<open>datetime('now')\<close> and
    \<open>new Date().toISOString()\<close> during the request;
  \<^item> \<open>stringify\<close>: \<open>JSON.stringify\<close> on a metadata object.
\<close>

record metadata =
  md_description :: string
  md_coverage :: "string list"
  md_dependencies :: "string list"
  md_language :: string
  md_framework :: "string option"
  md_testingLibrary :: "string option"
  md_inputType :: string
  md_generatedAt :: string
  md_quotaOptimized :: bool

record sys =
  jwt_sign :: "token_payload \<Rightarrow> string \<Rightarrow> string \<Rightarrow> string"
  jwt_verify :: "string \<Rightarrow> string \<Rightarrow> string + token_payload"
  secret_env :: "string option"
  newId :: "nat \<Rightarrow> string"
  random :: "nat \<Rightarrow> real"
  clock :: nat
  isoDate :: string
  stringify :: "metadata \<Rightarrow> string"

definition JWT_SECRET :: "sys \<Rightarrow> string" where
  \<comment> \<open>\<open>process.env.JWT_SECRET || "your-secret-key"\<close>\<close>
  "JWT_SECRET S =
     (case secret_env S of
        Some s \<Rightarrow> if s = [] then ''your-secret-key'' else s
      | None \<Rightarrow> ''your-secret-key'')"

definition generateToken :: "sys \<Rightarrow> auth_user \<Rightarrow> string" where
  "generateToken S user =
     jwt_sign S \<lparr>tp_id = au_id user, tp_email = au_email user, tp_role = au_role user,
                 tp_plan = au_plan user\<rparr>
       (JWT_SECRET S) ''7d''"

definition verifyToken :: "sys \<Rightarrow> string \<Rightarrow> token_payload option" where
  "verifyToken S token =
     (case jwt_verify S token (JWT_SECRET S) of Inl e \<Rightarrow> None | Inr decoded \<Rightarrow> Some decoded)"

section \<open>The database\<close>

text \<open>
  Tables are lists of rows in insertion order. An insertion fails, with the message of the
  error the driver throws, when it breaks a constraint that the schema of
  \<open>initializeDatabase\<close> declares: the primary key, or a foreign key (the driver,
  better-sqlite3, opens a database with foreign keys enforced). Columns declared
  \<open>NOT NULL\<close> hold strings here, so that constraint cannot fail.
\<close>

record user_row =
  user_id :: string
  user_email :: string
  user_name :: string
  user_password_hash :: string
  user_role :: string
  user_plan :: string

record project_row =
  project_id :: string
  project_name :: string
  project_user_id :: string

record test_case_row =
  tc_id :: string
  tc_project_id :: "string option"
  tc_name :: string
  tc_type :: string
  tc_content :: string
  tc_input_source :: string
  tc_ai_model_used :: string
  tc_created_by :: string
  tc_metadata :: string
  tc_created_at :: nat

record execution_row =
  ex_id :: string
  ex_test_case_id :: string
  ex_status :: string
  ex_duration :: int
  ex_environment :: "string option"
  ex_triggered_by :: string
  ex_logs :: string
  ex_created_at :: nat

record audit_row =
  al_user_id :: string
  al_action :: string
  al_resource_type :: string
  al_resource_id :: string
  al_ip_address :: string
  al_user_agent :: string

record database =
  users :: "user_row list"
  projects :: "project_row list"
  test_cases :: "test_case_row list"
  test_executions :: "execution_row list"
  audit_logs :: "audit_row list"

definition insert_test_case :: "database \<Rightarrow> test_case_row \<Rightarrow> string + database" where
  "insert_test_case db r =
     (if tc_id r \<in> set (map tc_id (test_cases db))
      then Inl ''UNIQUE constraint failed: test_cases.id''
      else if (case tc_project_id r of
                 Some p \<Rightarrow> p \<notin> set (map project_id (projects db)) | None \<Rightarrow> False)
              \<or> tc_created_by r \<notin> set (map user_id (users db))
      then Inl ''FOREIGN KEY constraint failed''
      else Inr (db\<lparr>test_cases := test_cases db @ [r]\<rparr>))"


definition insert_audit_log :: "database \<Rightarrow> audit_row \<Rightarrow> string + database" where
  "insert_audit_log db r =
     (if al_user_id r \<notin> set (map user_id (users db))
      then Inl ''FOREIGN KEY constraint failed''
      else Inr (db\<lparr>audit_logs := audit_logs db @ [r]\<rparr>))"

definition count_test_cases :: "database \<Rightarrow> string \<Rightarrow> int" where
  \<comment> \<open>\<open>SELECT COUNT(*) FROM test_cases WHERE created_by = ?\<close>\<close>
  "count_test_cases db uid = int (length (filter (\<lambda>r. tc_created_by r = uid) (test_cases db)))"

definition select_plan :: "database \<Rightarrow> string \<Rightarrow> string option" where
  \<comment> \<open>\<open>SELECT plan FROM users WHERE id = ?\<close>\<close>
  "select_plan db uid = map_option user_plan (find (\<lambda>u. user_id u = uid) (users db))"

record state =
  db :: database
  idCount :: nat  \<comment> \<open>calls of \<open>generateId\<close> so far\<close>
  rndCount :: nat  \<comment> \<open>calls of \<open>Math.random\<close> in the handlers so far\<close>

section \<open>POST /api/generate-tests\<close>

record generate_body =
  b_inputType :: string
  b_inputData :: string  \<comment> \<open>empty when the field is missing\<close>
  b_testTypes :: "string list"  \<comment> \<open>empty when the field is missing\<close>
  b_language :: string
  b_framework :: "string option"
  b_testingLibrary :: "string option"
  b_projectId :: "string option"

record 'b http_request =
  authorization :: "string option"
  forwarded_for :: "string option"
  user_agent :: "string option"
  body :: 'b

record usage =
  usage_current :: int
  usage_limit :: int
  usage_remaining :: int

datatype reply =
    ErrorReply string
  | LimitReply string int int  \<comment> \<open>\<open>error\<close>, \<open>limit\<close>, \<open>current\<close>\<close>
  | FallbackReply string  \<comment> \<open>an error with \<open>fallbackUsed: true\<close>\<close>
  | RetryReply string int  \<comment> \<open>\<open>error\<close>, \<open>retryAfter\<close>\<close>
  | TestsReply "(string \<times> generated_test) list" usage  \<comment> \<open>\<open>tests\<close> with their ids, \<open>usage\<close>\<close>
  | ExecutionsReply "execution_row list"
  | TestCasesReply "(test_case_row \<times> string option) list"

fun usage_of :: "reply \<Rightarrow> usage option" where
  "usage_of (TestsReply tests u) = Some u"
| "usage_of r = None"

record response =
  status :: nat
  reply :: reply

record outcome =
  response :: response
  after :: state
  generations :: "request list"  \<comment> \<open>the calls of \<open>generateTestCases\<close> made\<close>

definition planLimits :: "(string \<times> int) list" where
  "planLimits = [(''free'', 100), (''basic'', 1000), (''pro'', 5000), (''enterprise'', 999999)]"

definition userLimit_of :: "string \<Rightarrow> int" where
  \<comment> \<open>\<open>planLimits[user.plan] || 100\<close>\<close>
  "userLimit_of p = (case map_of planLimits p of Some l \<Rightarrow> if l = 0 then 100 else l | None \<Rightarrow> 100)"

definition bearer :: "string option \<Rightarrow> string option" where
  \<comment> \<open>the token of an \<open>authorization\<close> header that starts with \<open>Bearer \<close>\<close>
  "bearer authHeader =
     (case authHeader of
        None \<Rightarrow> None
      | Some h \<Rightarrow> if h \<noteq> [] \<and> startsWith h ''Bearer '' then Some (drop 7 h) else None)"

definition metadata_of :: "sys \<Rightarrow> generate_body \<Rightarrow> generated_test \<Rightarrow> metadata" where
  "metadata_of S b test =
     \<lparr>md_description = description test,
      md_coverage = coverage test,
      md_dependencies = dependencies test,
      md_language = b_language b,
      md_framework = b_framework b,
      md_testingLibrary = b_testingLibrary b,
      md_inputType = b_inputType b,
      md_generatedAt = isoDate S,
      md_quotaOptimized = True\<rparr>"

definition test_case_row_of ::
  "sys \<Rightarrow> generate_body \<Rightarrow> string \<Rightarrow> string \<Rightarrow> generated_test \<Rightarrow> test_case_row" where
  \<comment> \<open>the values bound by \<open>insertStmt.run\<close> for one artifact\<close>
  "test_case_row_of S b uid tid test =
     \<lparr>tc_id = tid,
      tc_project_id = (case b_projectId b of
                         Some p \<Rightarrow> if p = [] then None else Some p | None \<Rightarrow> None),
      tc_name = filename test,
      tc_type = test_type test,
      tc_content = content test,
      tc_input_source = take 500 (b_inputData b),
      tc_ai_model_used = ''gemini-1.5-flash'',
      tc_created_by = uid,
      tc_metadata = stringify S (metadata_of S b test),
      tc_created_at = clock S\<rparr>"

fun save_tests ::
  "sys \<Rightarrow> generate_body \<Rightarrow> string \<Rightarrow> generated_test list \<Rightarrow> state
    \<Rightarrow> (string + (string \<times> generated_test) list) \<times> state" where
  \<comment> \<open>the loop \<open>for (const test of generatedTests)\<close>: the rows inserted before a failing
      insertion stay, there is no transaction\<close>
  "save_tests S b uid [] st = (Inr [], st)"
| "save_tests S b uid (test # rest) st =
     (let tid = newId S (idCount st);
          st1 = st\<lparr>idCount := Suc (idCount st)\<rparr>
      in case insert_test_case (db st1) (test_case_row_of S b uid tid test) of
           Inl e \<Rightarrow> (Inl e, st1)
         | Inr db' \<Rightarrow>
             (case save_tests S b uid rest (st1\<lparr>db := db'\<rparr>) of
                (Inl e, st2) \<Rightarrow> (Inl e, st2)
              | (Inr saved, st2) \<Rightarrow> (Inr ((tid, test) # saved), st2)))"

definition generation_failed :: "string \<Rightarrow> response" where
  \<comment> \<open>the \<open>catch\<close> of the handler, on an error with the given message\<close>
  "generation_failed message =
     (if includes_str message ''quota'' \<or> includes_str message ''429''
      then \<lparr>status = 429, reply = FallbackReply
              ''Google AI Studio quota exceeded. Using template-based generation as fallback.''\<rparr>
      else if includes_str message ''rate limit''
      then \<lparr>status = 429, reply = RetryReply
              ''AI service rate limit exceeded. Please try again in a few minutes.'' 60\<rparr>
      else if includes_str message ''API key''
      then \<lparr>status = 500, reply = ErrorReply
              ''Google AI Studio API key not configured or invalid. Please contact support.''\<rparr>
      else \<lparr>status = 500, reply = FallbackReply
              ''Failed to generate tests. Using fallback templates.''\<rparr>)"

definition request_of :: "generate_body \<Rightarrow> request" where
  "request_of b =
     \<lparr>inputType = b_inputType b, inputData = b_inputData b, testTypes = b_testTypes b,
      language = b_language b, aiModel = Some ''gemini-1.5-flash''\<rparr>"

definition limit_message :: string where
  "limit_message = ''Test generation limit reached. Upgrade your plan to generate more tests.''"

definition passes_validation :: "generate_body \<Rightarrow> bool" where
  \<comment> \<open>neither of the two checks of the body answers 400\<close>
  "passes_validation b \<longleftrightarrow>
     b_inputData b \<noteq> [] \<and> b_testTypes b \<noteq> [] \<and> length (b_inputData b) \<le> 5000"

definition no_user_error :: string where
  \<comment> \<open>the message of the \<open>TypeError\<close> of \<open>user.plan\<close> when no row was found\<close>
  \<open>no_user_error = ''Cannot read properties of undefined (reading \'plan\')''\<close>

definition generate_and_save ::
  "sys \<Rightarrow> env \<Rightarrow> state \<Rightarrow> generate_body http_request \<Rightarrow> token_payload \<Rightarrow> int \<Rightarrow> int \<Rightarrow> outcome" where
  \<comment> \<open>the handler from the call of \<open>generateTestCases\<close> on: generation, the rows, the
      audit log and the response; an error thrown on the way is answered by the \<open>catch\<close>\<close>
  "generate_and_save S E st req decoded userLimit currentUsage =
     (let b = body req in
      case generateTestCases E (request_of b) of
        Inl e \<Rightarrow> \<lparr>response = generation_failed e, after = st, generations = [request_of b]\<rparr>
      | Inr generatedTests \<Rightarrow>
     (case save_tests S b (tp_id decoded) generatedTests st of
        (Inl e, st1) \<Rightarrow>
          \<lparr>response = generation_failed e, after = st1, generations = [request_of b]\<rparr>
      | (Inr savedTests, st1) \<Rightarrow>
     (case insert_audit_log (db st1)
             \<lparr>al_user_id = tp_id decoded,
              al_action = ''test_generation'',
              al_resource_type = ''test_cases'',
              al_resource_id = join '','' (map fst savedTests),
              al_ip_address = (case forwarded_for req of
                                 Some h \<Rightarrow> if h = [] then ''unknown'' else h
                               | None \<Rightarrow> ''unknown''),
              al_user_agent = (case user_agent req of
                                 Some h \<Rightarrow> if h = [] then ''unknown'' else h
                               | None \<Rightarrow> ''unknown'')\<rparr> of
        Inl e \<Rightarrow> \<lparr>response = generation_failed e, after = st1, generations = [request_of b]\<rparr>
      | Inr db' \<Rightarrow>
          \<lparr>response =
             \<lparr>status = 200,
              reply = TestsReply savedTests
                \<lparr>usage_current = currentUsage + int (length generatedTests),
                 usage_limit = userLimit,
                 usage_remaining = userLimit - (currentUsage + int (length generatedTests))\<rparr>\<rparr>,
           after = st1\<lparr>db := db'\<rparr>,
           generations = [request_of b]\<rparr>)))"

definition POST_generate_tests ::
  "sys \<Rightarrow> env \<Rightarrow> state \<Rightarrow> generate_body http_request \<Rightarrow> outcome" where
  "POST_generate_tests S E st req =
     (case bearer (authorization req) of
        None \<Rightarrow> \<lparr>response = \<lparr>status = 401, reply = ErrorReply ''No token provided''\<rparr>,
                  after = st, generations = []\<rparr>
      | Some token \<Rightarrow>
     (case verifyToken S token of
        None \<Rightarrow> \<lparr>response = \<lparr>status = 401, reply = ErrorReply ''Invalid token''\<rparr>,
                  after = st, generations = []\<rparr>
      | Some decoded \<Rightarrow>
      if b_inputData (body req) = [] \<or> b_testTypes (body req) = []
      then \<lparr>response = \<lparr>status = 400,
                          reply = ErrorReply ''Input data and test types are required''\<rparr>,
            after = st, generations = []\<rparr>
      else if length (b_inputData (body req)) > 5000
      then \<lparr>response = \<lparr>status = 400, reply = ErrorReply
              ''Input data too large. Maximum 5,000 characters allowed to manage API quotas.''\<rparr>,
            after = st, generations = []\<rparr>
      else
     (case select_plan (db st) (tp_id decoded) of
        None \<Rightarrow> \<lparr>response = generation_failed no_user_error, after = st, generations = []\<rparr>
      | Some p \<Rightarrow>
      if count_test_cases (db st) (tp_id decoded) \<ge> userLimit_of p
      then \<lparr>response = \<lparr>status = 429, reply = LimitReply limit_message (userLimit_of p)
                                    (count_test_cases (db st) (tp_id decoded))\<rparr>,
            after = st, generations = []\<rparr>
      else generate_and_save S E st req decoded (userLimit_of p)
             (count_test_cases (db st) (tp_id decoded)))))"

section \<open>GET /api/test-cases\<close>

definition select_test_cases :: "database \<Rightarrow> string \<Rightarrow> (test_case_row \<times> string option) list" where
  \<comment> \<open>the user's rows, newest first, each with the name of its project if it has one\<close>
  "select_test_cases d uid =
     map (\<lambda>r. (r, (case tc_project_id r of
                       None \<Rightarrow> None
                     | Some p \<Rightarrow> map_option project_name
                                  (find (\<lambda>q. project_id q = p) (projects d)))))
         (rev (sort_key tc_created_at (filter (\<lambda>r. tc_created_by r = uid) (test_cases d))))"

definition GET_test_cases :: "sys \<Rightarrow> state \<Rightarrow> unit http_request \<Rightarrow> response" where
  "GET_test_cases S st req =
     (case bearer (authorization req) of
        None \<Rightarrow> \<lparr>status = 401, reply = ErrorReply ''No token provided''\<rparr>
      | Some token \<Rightarrow>
          (case verifyToken S token of
             None \<Rightarrow> \<lparr>status = 401, reply = ErrorReply ''Invalid token''\<rparr>
           | Some decoded \<Rightarrow>
               \<lparr>status = 200,
                reply = TestCasesReply (select_test_cases (db st) (tp_id decoded))\<rparr>))"

section \<open>POST /api/executions\<close>









section \<open>Concrete surroundings, states and requests\<close>

definition example_payload :: token_payload where
  "example_payload = \<lparr>tp_id = ''u1'', tp_email = ''ada@example.com'', tp_role = ''user'',
                        tp_plan = ''free''\<rparr>"

definition example_sys :: sys where
  \<comment> \<open>one token verifies, fresh ids \<open>id\<close>, \<open>idx\<close>, \<open>idxx\<close>, ..., every random number 1/2\<close>
  "example_sys =
     \<lparr>jwt_sign = (\<lambda>payload secret expiresIn. ''good-token''),
      jwt_verify = (\<lambda>token secret. if token = ''good-token'' then Inr example_payload
                                      else Inl ''invalid signature''),
      secret_env = None,
      newId = (\<lambda>k. ''id'' @ replicate k (CHR ''x'')),
      random = (\<lambda>k. 1 / 2),
      clock = 7,
      isoDate = ''2024-05-01T10:00:00.000Z'',
      stringify = (\<lambda>m. md_description m @ ''|'' @ join '','' (md_coverage m) @ ''|''
                        @ join '','' (md_dependencies m))\<rparr>"

definition example_user :: user_row where
  "example_user = \<lparr>user_id = ''u1'', user_email = ''ada@example.com'', user_name = ''Ada'',
                     user_password_hash = ''$2a$12$hash'', user_role = ''user'',
                     user_plan = ''free''\<rparr>"

definition stored_case :: "nat \<Rightarrow> test_case_row" where
  "stored_case k =
     \<lparr>tc_id = ''tc-'' @ replicate k (CHR ''x''), tc_project_id = None, tc_name = ''old.java'',
      tc_type = ''unit'', tc_content = ''class Old {}'', tc_input_source = ''old'',
      tc_ai_model_used = ''gemini-1.5-flash'', tc_created_by = ''u1'', tc_metadata = ''{}'',
      tc_created_at = k\<rparr>"

definition state_with :: "nat \<Rightarrow> state" where
  \<comment> \<open>the free-plan user \<open>u1\<close> with \<open>n\<close> stored test cases\<close>
  "state_with n =
     \<lparr>db = \<lparr>users = [example_user], projects = [], test_cases = map stored_case [0..<n],
             test_executions = [], audit_logs = []\<rparr>,
      idCount = 0, rndCount = 0\<rparr>"

definition login_body :: generate_body where
  "login_body =
     \<lparr>b_inputType = ''user_story'',
      b_inputData = ''As a user, I want to login to the system so that I can access my dashboard'',
      b_testTypes = [''unit''], b_language = ''java'', b_framework = Some ''Spring Boot'',
      b_testingLibrary = Some ''JUnit 5'', b_projectId = None\<rparr>"

definition login_post :: "generate_body http_request" where
  "login_post = \<lparr>authorization = Some ''Bearer good-token'', forwarded_for = None,
                   user_agent = Some ''curl/8.0'', body = login_body\<rparr>"

definition two_class_analysis :: analysis where
  "two_class_analysis =
     empty_analysis
       \<lparr>testableClasses := Some
          [\<lparr>className = Some ''LoginService'', package = None, methods = None\<rparr>,
           \<lparr>className = Some ''SessionStore'', package = None, methods = None\<rparr>],
        complexity := Some ''medium''\<rparr>"

definition two_class_env :: env where
  \<comment> \<open>the model answers every call, and its analysis names two testable classes\<close>
  "two_class_env =
     \<lparr>apiKey = True, llm = (\<lambda>n. Inr ''{ }''),
      parseAnalysis = (\<lambda>s. Some two_class_analysis), testableElements = (\<lambda>name text. []),
      classTemplateText = (\<lambda>lang c. []), suiteRunnerText = (\<lambda>lang tests. [])\<rparr>"

definition empty_post :: "generate_body http_request" where
  \<comment> \<open>the same request with no input data\<close>
  "empty_post = login_post\<lparr>body := login_body\<lparr>b_inputData := []\<rparr>\<rparr>"

definition list_request :: "unit http_request" where
  "list_request = \<lparr>authorization = Some ''Bearer good-token'', forwarded_for = None,
                     user_agent = Some ''curl/8.0'', body = ()\<rparr>"



section \<open>The JSON region returned by \<open>extractJsonFromResponse\<close>\<close>

lemma running_Cons_0: "running (l # ls) 0 = brace_delta l"
  by (simp add: running_def)

lemma running_Cons_Suc: "running (l # ls) (Suc k) = brace_delta l + running ls k"
  by (simp add: running_def)

lemma collect_found:
  "k < length ls \<Longrightarrow> c + running ls k = 0 \<Longrightarrow> \<forall>m<k. c + running ls m \<noteq> 0 \<Longrightarrow>
   collect_json_lines ls True c = take (Suc k) ls"
proof (induction ls arbitrary: k c)
  case Nil
  then show ?case by simp
next
  case (Cons l ls)
  show ?case
  proof (cases k)
    case 0
    with Cons.prems show ?thesis by (simp add: running_Cons_0)
  next
    case (Suc k')
    from Cons.prems(3) Suc have nz: "c + brace_delta l \<noteq> 0"
      using running_Cons_0 by (metis zero_less_Suc)
    have a: "k' < length ls" using Cons.prems(1) Suc by simp
    have b: "(c + brace_delta l) + running ls k' = 0"
      using Cons.prems(2) Suc by (simp add: running_Cons_Suc)
    have c: "\<forall>m<k'. (c + brace_delta l) + running ls m \<noteq> 0"
    proof (intro allI impI)
      fix m assume "m < k'"
      then have "Suc m < k" using Suc by simp
      with Cons.prems(3) have "c + running (l # ls) (Suc m) \<noteq> 0" by blast
      then show "(c + brace_delta l) + running ls m \<noteq> 0" by (simp add: running_Cons_Suc)
    qed
    from Cons.IH[OF a b c] nz Suc show ?thesis by simp
  qed
qed

text \<open>When no line brings the count back to zero, the loop keeps every line.\<close>

lemma collect_never_zero:
  "\<forall>m<length ls. c + running ls m \<noteq> 0 \<Longrightarrow> collect_json_lines ls True c = ls"
proof (induction ls arbitrary: c)
  case Nil
  then show ?case by simp
next
  case (Cons l ls)
  from Cons.prems have nz: "c + brace_delta l \<noteq> 0"
    using running_Cons_0 by (metis length_greater_0_conv list.distinct(1))
  have "\<forall>m<length ls. (c + brace_delta l) + running ls m \<noteq> 0"
  proof (intro allI impI)
    fix m assume "m < length ls"
    then have "Suc m < length (l # ls)" by simp
    with Cons.prems have "c + running (l # ls) (Suc m) \<noteq> 0" by blast
    then show "(c + brace_delta l) + running ls m \<noteq> 0" by (simp add: running_Cons_Suc)
  qed
  from Cons.IH[OF this] nz show ?case by simp
qed

lemma collect_first_line:
  "CHR ''{'' \<in> set l \<Longrightarrow> collect_json_lines (l # ls) False c = collect_json_lines (l # ls) True c"
  by simp

lemma split_nl_nonempty: "split_nl s \<noteq> []"
  by (cases s) auto

lemma join_Cons_char: "join sep ((c # x) # xs) = c # join sep (x # xs)"
  by (cases xs) auto

lemma join_take_split_prefix: "prefix (join [CHR 0x0A] (take n (split_nl s))) s"
proof (induction s arbitrary: n)
  case Nil
  then show ?case by (cases n) auto
next
  case (Cons c cs)
  show ?case
  proof (cases n)
    case 0
    then show ?thesis by simp
  next
    case (Suc m)
    show ?thesis
    proof (cases "c = CHR 0x0A")
      case True
      have "prefix (join [CHR 0x0A] (take m (split_nl cs))) cs" by (rule Cons.IH)
      then show ?thesis using True Suc
        by (cases "take m (split_nl cs)") auto
    next
      case False
      obtain r rs where r: "split_nl cs = r # rs"
        using split_nl_nonempty by (cases "split_nl cs") auto
      have "prefix (join [CHR 0x0A] (take (Suc m) (split_nl cs))) cs" by (rule Cons.IH)
      then show ?thesis using False Suc r by (simp add: join_Cons_char)
    qed
  qed
qed

lemma rtrim_prefix: "prefix (rev (dropWhile P (rev xs))) xs"
proof -
  have "xs = rev (takeWhile P (rev xs) @ dropWhile P (rev xs))" by simp
  then have "xs = rev (dropWhile P (rev xs)) @ rev (takeWhile P (rev xs))" by (simp del: takeWhile_dropWhile_id)
  then show ?thesis by (metis prefixI)
qed

lemma rtrim_hd:
  assumes "\<not> P x"
  shows "\<exists>ys. rev (dropWhile P (rev (x # xs))) = x # ys"
proof -
  have "dropWhile P (rev xs @ [x]) = (if \<forall>y\<in>set (rev xs). P y then [x] else dropWhile P (rev xs) @ [x])"
    using assms by (simp add: dropWhile_append)
  then have "rev (dropWhile P (rev (x # xs))) =
      (if \<forall>y\<in>set (rev xs). P y then [x] else x # rev (dropWhile P (rev xs)))"
    by simp
  then show ?thesis by (cases "\<forall>y\<in>set (rev xs). P y") simp_all
qed

lemma trim_starts:
  assumes "\<not> is_space x"
  shows "\<exists>ys. trim (x # xs) = x # ys \<and> prefix (trim (x # xs)) (x # xs)"
proof -
  have "trim (x # xs) = rev (dropWhile is_space (rev (x # xs)))"
    using assms by (simp add: trim_def)
  then show ?thesis using rtrim_hd[of is_space x xs] assms rtrim_prefix[of is_space "x # xs"] by auto
qed

lemma indexOf_Some_nth: "indexOf s c = Some i \<Longrightarrow> i < length s \<and> s ! i = c"
proof (induction s arbitrary: i)
  case Nil
  then show ?case by simp
next
  case (Cons x xs)
  then show ?case by (auto split: if_splits)
qed


lemma is_space_brace: "\<not> is_space (CHR ''{'')"
  by (simp add: is_space_def)

text \<open>
  Claim C9 (as amended). After the code fences are stripped, let the text hold a first \<open>{\<close>
  at index \<open>i\<close> and a last \<open>}\<close> at a later index \<open>j\<close>, and let \<open>ls\<close> be the
  lines of the part from \<open>i\<close> to \<open>j\<close>. If line \<open>k\<close> is the first line of \<open>ls\<close>
  after which the running count of \<open>{\<close> minus \<open>}\<close> is zero, then
  \<open>extractJsonFromResponse\<close> returns the first \<open>k + 1\<close> lines of \<open>ls\<close>, joined by
  line feeds and trimmed of surrounding white space; the result starts with the first
  \<open>{\<close> of the text and is a prefix of the text from there on.

  The claim as worded lets the result run to the end of the line of the text on which the
  count is back at zero. The code cuts the text after its last \<open>}\<close> before it counts,
  and trims the result, so what follows the last \<open>}\<close> on that line, and white space
  at the end of it, are not returned; the counterexample below is the answer
  \<open>{} done\<close>.
\<close>

theorem extractJson_region:
  assumes i: "indexOf (strip_fences text) (CHR ''{'') = Some i"
      and j: "lastIndexOf (strip_fences text) (CHR ''}'') = Some j"
      and ij: "i < j"
      and ls: "ls = split_nl (substring (strip_fences text) i (j + 1))"
      and k: "k < length ls" "running ls k = 0" "\<forall>m<k. running ls m \<noteq> 0"
  shows "extractJsonFromResponse text = trim (join [CHR 0x0A] (take (Suc k) ls))
       \<and> prefix (extractJsonFromResponse text) (drop i (strip_fences text))
       \<and> extractJsonFromResponse text \<noteq> []
       \<and> hd (extractJsonFromResponse text) = CHR ''{''"
proof -
  define t where "t = strip_fences text"
  define region where "region = substring t i (j + 1)"
  have bounds: "json_bounds t = region"
    using i j ij by (simp add: json_bounds_def t_def region_def)
  from i have it: "i < length t" "t ! i = CHR ''{''"
    using indexOf_Some_nth unfolding t_def by blast+
  have dr: "drop i t = CHR ''{'' # drop (Suc i) t"
    using it by (metis Cons_nth_drop_Suc)
  have "j + 1 - i = Suc (j - i)" using ij by simp
  then have reg: "region = CHR ''{'' # take (j - i) (drop (Suc i) t)"
    by (simp add: region_def substring_def dr)
  define rest where "rest = take (j - i) (drop (Suc i) t)"
  have ls_region: "ls = split_nl region"
    using ls by (simp add: t_def region_def)
  have ls_eq: "ls = (CHR ''{'' # hd (split_nl rest)) # tl (split_nl rest)"
    unfolding ls_region reg rest_def[symmetric] by simp
  have coll: "collect_json_lines ls False 0 = take (Suc k) ls"
  proof -
    have "collect_json_lines ls False 0 = collect_json_lines ls True 0"
      unfolding ls_eq by (rule collect_first_line) simp
    also have "\<dots> = take (Suc k) ls"
      using collect_found[of k ls 0] k by simp
    finally show ?thesis .
  qed
  have res: "extractJsonFromResponse text = trim (join [CHR 0x0A] (take (Suc k) ls))"
    using bounds coll ls_region
    by (simp add: extractJsonFromResponse_def t_def[symmetric])
  define J where "J = join [CHR 0x0A] (take (Suc k) ls)"
  have Jhd: "J = CHR ''{'' # join [CHR 0x0A] (hd (split_nl rest) # take k (tl (split_nl rest)))"
    unfolding J_def ls_eq by (simp add: join_Cons_char)
  have Jpre: "prefix J region"
    unfolding J_def ls_region by (rule join_take_split_prefix)
  have "prefix region (drop i t)"
    unfolding region_def substring_def by (rule take_is_prefix)
  with Jpre have Jpre2: "prefix J (drop i t)" by (rule prefix_order.trans)
  obtain ys where ys: "trim J = CHR ''{'' # ys" and tp: "prefix (trim J) J"
    using trim_starts[OF is_space_brace] unfolding Jhd by blast
  from tp Jpre2 have "prefix (trim J) (drop i t)" by (rule prefix_order.trans)
  then show ?thesis using res ys unfolding J_def t_def by simp
qed

theorem extractJson_region_witness:
  "extractJsonFromResponse ''Sure: {a{\<newline>}} \<newline>} bye'' = ''{a{\<newline>}}''"
proof -
  define resp where "resp = ''Sure: {a{\<newline>}} \<newline>} bye''"
  have st: "strip_fences resp = resp" unfolding resp_def by code_simp
  have i: "indexOf (strip_fences resp) (CHR ''{'') = Some 6" unfolding st unfolding resp_def by code_simp
  have j: "lastIndexOf (strip_fences resp) (CHR ''}'') = Some 14" unfolding st unfolding resp_def by code_simp
  have ij: "(6::nat) < 14" by simp
  have ls: "[''{a{'', ''}} '', ''}''] = split_nl (substring (strip_fences resp) 6 (14 + 1))"
    unfolding st unfolding resp_def by code_simp
  have k1: "1 < length [''{a{'', ''}} '', ''}'']" by simp
  have k2: "running [''{a{'', ''}} '', ''}''] 1 = 0" by (simp add: running_def brace_delta_def)
  have k3: "\<forall>m<1. running [''{a{'', ''}} '', ''}''] m \<noteq> 0" by (simp add: running_def brace_delta_def)
  have tr: "trim (join [CHR 0x0A] (take (Suc 1) [''{a{'', ''}} '', ''}''])) = ''{a{\<newline>}}''"
    by code_simp
  show ?thesis
    using extractJson_region[OF i j ij ls k1 k2 k3] tr unfolding resp_def by simp
qed

theorem extractJson_line_end_counterexample:
  "extractJsonFromResponse ''{} done'' = ''{}''
     \<and> claimed_region (strip_fences ''{} done'') = Some ''{} done''"
  by code_simp

section \<open>Properties of the generation pipeline\<close>

lemma join_nonempty: "x \<noteq> [] \<Longrightarrow> join sep (x # xs) \<noteq> []"
  by (cases xs) auto

lemma templates_nonempty:
  "template_unit_java \<noteq> []" "template_unit_python \<noteq> []" "template_unit_javascript \<noteq> []"
  "template_bdd_feature \<noteq> []" "template_api_java \<noteq> []" "template_ui_java \<noteq> []"
  "template_performance_jmx \<noteq> []"
  unfolding template_unit_java_def template_unit_python_def template_unit_javascript_def
    template_bdd_feature_def template_api_java_def template_ui_java_def
    template_performance_jmx_def
  by (rule join_nonempty, simp)+

lemma basic_template_unit: "\<exists>t. generateBasicTestTemplate request ''unit'' = Some t \<and> test_type t = ''unit''"
  by (simp add: generateBasicTestTemplate_def templates_def lookup_or_empty_def templates_nonempty)

lemma basic_template_bdd: "\<exists>t. generateBasicTestTemplate request ''bdd'' = Some t \<and> test_type t = ''bdd''"
  by (simp add: generateBasicTestTemplate_def templates_def lookup_or_empty_def templates_nonempty)

lemma basic_template_api: "\<exists>t. generateBasicTestTemplate request ''api'' = Some t \<and> test_type t = ''api''"
  by (simp add: generateBasicTestTemplate_def templates_def lookup_or_empty_def templates_nonempty)

lemma basic_template_ui: "\<exists>t. generateBasicTestTemplate request ''ui'' = Some t \<and> test_type t = ''ui''"
  by (simp add: generateBasicTestTemplate_def templates_def lookup_or_empty_def templates_nonempty)

lemma basic_template_performance:
  "\<exists>t. generateBasicTestTemplate request ''performance'' = Some t \<and> test_type t = ''performance''"
  by (simp add: generateBasicTestTemplate_def templates_def lookup_or_empty_def templates_nonempty)

lemma basic_template_valid:
  assumes "k \<in> valid_kinds"
  shows "\<exists>t. generateBasicTestTemplate request k = Some t \<and> test_type t = k"
  using assms basic_template_unit basic_template_bdd basic_template_api basic_template_ui
    basic_template_performance
  unfolding valid_kinds_def by blast

lemma generateTestCases_returns:
  assumes "testTypes request \<noteq> []"
      and "set (testTypes request) \<subseteq> valid_kinds"
  shows "\<exists>tests. generateTestCases E request = Inr tests \<and> tests \<noteq> []"
proof -
  obtain first rest where ft: "testTypes request = first # rest"
    using assms(1) by (cases "testTypes request") auto
  then have "first \<in> valid_kinds" using assms(2) by auto
  then obtain t where t: "generateBasicTestTemplate request first = Some t"
    using basic_template_valid by blast
  obtain useAI a n where ph: "analysis_phase E request = (useAI, a, n)"
    by (cases "analysis_phase E request") auto
  show ?thesis
    by (cases "generate_loop E request useAI a (testTypes request) n = []")
       (simp_all add: generateTestCases_def ph ft t)
qed

text \<open>
  Claim C1. For every request whose list of test kinds is not empty and holds only valid
  kinds, and whose input is not empty, \<open>generateTestCases\<close> returns, and what it
  returns is a non-empty list of artifacts. This holds in every surrounding \<open>E\<close>: with
  or without the key, whatever the model calls throw or answer, and whether or not the
  answers parse. The call never ends in the error of the last resort.
\<close>

theorem generateTestCases_nonempty:
  assumes "testTypes request \<noteq> []"
      and "set (testTypes request) \<subseteq> valid_kinds"
      and "inputData request \<noteq> []"
  shows "\<exists>tests. generateTestCases E request = Inr tests \<and> tests \<noteq> []"
proof -
  obtain first rest where kinds: "testTypes request = first # rest"
    using assms(1) by (cases "testTypes request") auto
  with assms(2) have "first \<in> valid_kinds" by simp
  then obtain basicTest where last_resort: "generateBasicTestTemplate request first = Some basicTest"
    using basic_template_valid by blast
  obtain useAI a n where phase: "analysis_phase E request = (useAI, a, n)"
    by (cases "analysis_phase E request") auto
  show ?thesis
  proof (cases "generate_loop E request useAI a (testTypes request) n = []")
    case True
    then have "generateTestCases E request = Inr [basicTest]"
      by (simp add: generateTestCases_def phase kinds last_resort)
    then show ?thesis by simp
  next
    case False
    then have "generateTestCases E request
                 = Inr (generate_loop E request useAI a (testTypes request) n)"
      by (simp add: generateTestCases_def phase Let_def)
    with False show ?thesis by simp
  qed
qed

theorem generateTestCases_nonempty_witness:
  "\<exists>tests. generateTestCases failing_env login_request = Inr tests \<and> tests \<noteq> []"
proof -
  have h1: "testTypes login_request \<noteq> []" by (simp add: login_request_def)
  have h2: "set (testTypes login_request) \<subseteq> valid_kinds"
    by (simp add: login_request_def valid_kinds_def)
  have h3: "inputData login_request \<noteq> []" by (simp add: login_request_def)
  show ?thesis by (rule generateTestCases_nonempty[OF h1 h2 h3])
qed

lemma class_tests_length: "length (fst (class_tests E request cs n)) = length cs"
proof (induction cs arbitrary: n)
  case Nil
  then show ?case by simp
next
  case (Cons c cs)
  obtain ts n' where r: "class_tests E request cs (Suc n) = (ts, n')"
    by (cases "class_tests E request cs (Suc n)") auto
  from Cons.IH[of "Suc n"] r have "length ts = length cs" by simp
  then show ?case using r by (simp add: Let_def)
qed

lemma project_level_nonempty:
  assumes "length classes > 1"
  shows "fst (generateProjectLevelUnitTests E request classes n) \<noteq> []"
proof -
  obtain ts n' where r: "class_tests E request (take 10 classes) n = (ts, n')"
    by (cases "class_tests E request (take 10 classes) n") auto
  have "length ts = length (take 10 classes)"
    using class_tests_length[of E request "take 10 classes" n] r by simp
  then have "ts \<noteq> []" using assms by auto
  then show ?thesis using r by (simp add: generateProjectLevelUnitTests_def)
qed

lemma single_test_cases:
  "(\<exists>t. single_test E request kind what cov n = (Inr t, Suc n) \<and> test_type t = kind)
   \<or> (\<exists>e. single_test E request kind what cov n = (Inl e, Suc n))"
  by (cases "llm E n") (simp_all add: single_test_def)

lemma lift_single_cases:
  "(\<exists>t. r = (Inr t, m) \<and> test_type t = kind) \<or> (\<exists>e. r = (Inl e, m)) \<Longrightarrow>
   (\<exists>t. lift_single r = (Inr [t], m) \<and> test_type t = kind) \<or> (\<exists>e. lift_single r = (Inl e, m))"
  by (auto simp: lift_single_def)

lemma single_kinds:
  "(\<exists>t. lift_single (generateSingleUnitTest E request n) = (Inr [t], Suc n) \<and> test_type t = ''unit'')
     \<or> (\<exists>e. lift_single (generateSingleUnitTest E request n) = (Inl e, Suc n))"
  "(\<exists>t. lift_single (generateSingleBDDTest E request n) = (Inr [t], Suc n) \<and> test_type t = ''bdd'')
     \<or> (\<exists>e. lift_single (generateSingleBDDTest E request n) = (Inl e, Suc n))"
  "(\<exists>t. lift_single (generateSingleAPITest E request n) = (Inr [t], Suc n) \<and> test_type t = ''api'')
     \<or> (\<exists>e. lift_single (generateSingleAPITest E request n) = (Inl e, Suc n))"
  "(\<exists>t. lift_single (generateSingleUITest E request n) = (Inr [t], Suc n) \<and> test_type t = ''ui'')
     \<or> (\<exists>e. lift_single (generateSingleUITest E request n) = (Inl e, Suc n))"
  "(\<exists>t. lift_single (generateSinglePerformanceTest E request n) = (Inr [t], Suc n)
         \<and> test_type t = ''performance'')
     \<or> (\<exists>e. lift_single (generateSinglePerformanceTest E request n) = (Inl e, Suc n))"
  unfolding generateSingleUnitTest_def generateSingleBDDTest_def generateSingleAPITest_def
    generateSingleUITest_def generateSinglePerformanceTest_def
  by (rule lift_single_cases, rule single_test_cases)+

lemma specific_few_classes:
  assumes "k \<in> valid_kinds" "few_classes a"
  shows "(\<exists>t. generateSpecificTestType E request k a n = (Inr [t], Suc n) \<and> test_type t = k)
       \<or> (\<exists>e. generateSpecificTestType E request k a n = (Inl e, Suc n))"
proof -
  have u: "generateSpecificTestType E request ''unit'' a n
             = lift_single (generateSingleUnitTest E request n)"
    using assms(2)
    by (cases "testableClasses a") (simp_all add: generateSpecificTestType_def few_classes_def)
  consider "k = ''unit''" | "k = ''bdd''" | "k = ''api''" | "k = ''ui''" | "k = ''performance''"
    using assms(1) unfolding valid_kinds_def by blast
  then show ?thesis
  proof cases
    case 1
    then show ?thesis using u single_kinds(1)[of E request n] by simp
  next
    case 2
    then show ?thesis using single_kinds(2)[of E request n]
      by (simp add: generateSpecificTestType_def)
  next
    case 3
    then show ?thesis using single_kinds(3)[of E request n]
      by (simp add: generateSpecificTestType_def)
  next
    case 4
    then show ?thesis using single_kinds(4)[of E request n]
      by (simp add: generateSpecificTestType_def)
  next
    case 5
    then show ?thesis using single_kinds(5)[of E request n]
      by (simp add: generateSpecificTestType_def)
  qed
qed

lemma specific_nonempty:
  assumes "k \<in> valid_kinds" "generateSpecificTestType E request k a n = (Inr ts, n')"
  shows "ts \<noteq> []"
proof (cases "few_classes a")
  case True
  from specific_few_classes[OF assms(1) True, of E request n] assms(2) show ?thesis by auto
next
  case False
  then obtain classes where c: "testableClasses a = Some classes" "length classes > 1"
    by (auto simp: few_classes_def split: option.splits)
  show ?thesis
  proof (cases "k = ''unit''")
    case True
    obtain ps m where p: "generateProjectLevelUnitTests E request classes n = (ps, m)"
      by (cases "generateProjectLevelUnitTests E request classes n") auto
    have "ps \<noteq> []" using project_level_nonempty[OF c(2), of E request n] p by simp
    then show ?thesis using assms(2) True c p by (simp add: generateSpecificTestType_def)
  next
    case False
    consider "k = ''bdd''" | "k = ''api''" | "k = ''ui''" | "k = ''performance''"
      using assms(1) False unfolding valid_kinds_def by blast
    then show ?thesis
    proof cases
      case 1
      then show ?thesis using single_kinds(2)[of E request n] assms(2)
        by (auto simp: generateSpecificTestType_def)
    next
      case 2
      then show ?thesis using single_kinds(3)[of E request n] assms(2)
        by (auto simp: generateSpecificTestType_def)
    next
      case 3
      then show ?thesis using single_kinds(4)[of E request n] assms(2)
        by (auto simp: generateSpecificTestType_def)
    next
      case 4
      then show ?thesis using single_kinds(5)[of E request n] assms(2)
        by (auto simp: generateSpecificTestType_def)
    qed
  qed
qed

lemma tests_for_kind_nonempty:
  assumes "k \<in> valid_kinds"
  shows "fst (tests_for_kind E request useAI a k n) \<noteq> []"
proof -
  obtain t where t: "generateBasicTestTemplate request k = Some t"
    using basic_template_valid[OF assms] by blast
  show ?thesis
  proof (cases "useAI \<and> apiKey E")
    case False
    then show ?thesis using t
      by (auto simp: tests_for_kind_def ai_attempt_def generateTestFromTemplate_def)
  next
    case True
    obtain r n' where r: "generateSpecificTestType E request k a n = (r, n')"
      by (cases "generateSpecificTestType E request k a n") auto
    show ?thesis
    proof (cases r)
      case (Inl e)
      then show ?thesis using True t r
        by (simp add: tests_for_kind_def ai_attempt_def generateTestFromTemplate_def)
    next
      case (Inr ts)
      then have "ts \<noteq> []" using specific_nonempty[OF assms] r by blast
      then show ?thesis using True r Inr by (simp add: tests_for_kind_def ai_attempt_def)
    qed
  qed
qed

lemma generate_loop_length:
  assumes "set ks \<subseteq> valid_kinds"
  shows "length ks \<le> length (generate_loop E request useAI a ks n)"
  using assms
proof (induction ks arbitrary: n)
  case Nil
  then show ?case by simp
next
  case (Cons k ks)
  then have k: "k \<in> valid_kinds" and ks: "set ks \<subseteq> valid_kinds" by auto
  obtain ts n' where t: "tests_for_kind E request useAI a k n = (ts, n')"
    by (cases "tests_for_kind E request useAI a k n") auto
  have "ts \<noteq> []" using tests_for_kind_nonempty[OF k, of E request useAI a n] t by simp
  then have "1 \<le> length ts" by (cases ts) auto
  then show ?case using t Cons.IH[OF ks, of n'] by simp
qed

lemma tests_for_kind_few_classes:
  assumes "k \<in> valid_kinds" "few_classes a"
  shows "\<exists>t n'. tests_for_kind E request useAI a k n = ([t], n') \<and> test_type t = k"
proof -
  obtain t where t: "generateBasicTestTemplate request k = Some t" "test_type t = k"
    using basic_template_valid[OF assms(1)] by blast
  show ?thesis
  proof (cases "useAI \<and> apiKey E")
    case False
    then show ?thesis using t
      by (auto simp: tests_for_kind_def ai_attempt_def generateTestFromTemplate_def)
  next
    case True
    from specific_few_classes[OF assms, of E request n] show ?thesis
    proof
      assume "\<exists>t. generateSpecificTestType E request k a n = (Inr [t], Suc n) \<and> test_type t = k"
      then show ?thesis using True by (auto simp: tests_for_kind_def ai_attempt_def)
    next
      assume "\<exists>e. generateSpecificTestType E request k a n = (Inl e, Suc n)"
      then show ?thesis using True t
        by (auto simp: tests_for_kind_def ai_attempt_def generateTestFromTemplate_def)
    qed
  qed
qed

lemma generate_loop_few_classes:
  assumes "set ks \<subseteq> valid_kinds" "few_classes a"
  shows "map test_type (generate_loop E request useAI a ks n) = ks"
  using assms(1)
proof (induction ks arbitrary: n)
  case Nil
  then show ?case by simp
next
  case (Cons k ks)
  then have k: "k \<in> valid_kinds" and ks: "set ks \<subseteq> valid_kinds" by auto
  obtain t n' where t: "tests_for_kind E request useAI a k n = ([t], n')" "test_type t = k"
    using tests_for_kind_few_classes[OF k assms(2)] by blast
  show ?case using t Cons.IH[OF ks, of n'] by simp
qed

lemma ask_analysis_malformed:
  assumes "llm E n = Inr text" "parseAnalysis E (extractJsonFromResponse text) = None"
  shows "ask_analysis E fallback n = (fallback, Suc n)"
  using assms by (simp add: ask_analysis_def)

lemma analysis_phase_malformed:
  assumes "llm E 0 = Inr text" "parseAnalysis E (extractJsonFromResponse text) = None" "apiKey E"
  shows "analysis_phase E request = (True, fallback_for E request, 1)"
  using assms
  by (simp add: analysis_phase_def fallback_for_def analyzeGitRepository_def
      analyzePostmanCollection_def analyzeWebPage_def analyzeInput_def analyzeUploadedFiles_def
      ask_analysis_malformed[OF assms(1,2)])

text \<open>
  Claim C3. Let the key be set and the model's first answer, the analysis, be a text that
  \<open>JSON.parse\<close> rejects once cleaned. Then \<open>analyzeInput\<close> returns the fallback analysis
  of \<open>getFallbackAnalysis\<close> and does not throw; whatever the input type, the analysis
  phase ends with the fallback object of the analyzer it chose and with the model still in
  use; and for a non-empty list of valid kinds \<open>generateTestCases\<close> returns the artifacts
  of the loop over the kinds run with that analysis, at least one per requested kind. For
  a request that \<open>analyzeInput\<close> analyses these are exactly one artifact per requested
  kind, in the order of the request.
\<close>

theorem malformed_analysis_falls_back:
  assumes "llm E 0 = Inr text"
      and "parseAnalysis E (extractJsonFromResponse text) = None"
      and "apiKey E"
  shows "analyzeInput E request 0 = (getFallbackAnalysis request, 1)
       \<and> analysis_phase E request = (True, fallback_for E request, 1)
       \<and> (testTypes request \<noteq> [] \<and> set (testTypes request) \<subseteq> valid_kinds \<longrightarrow>
            (\<exists>tests. generateTestCases E request = Inr tests
               \<and> tests = generate_loop E request True (fallback_for E request)
                            (testTypes request) 1
               \<and> length (testTypes request) \<le> length tests
               \<and> (routes_to_analyzeInput request \<longrightarrow>
                    fallback_for E request = getFallbackAnalysis request
                    \<and> map test_type tests = testTypes request)))"
proof -
  have an: "analyzeInput E request 0 = (getFallbackAnalysis request, 1)"
    using assms(1,2) by (simp add: analyzeInput_def ask_analysis_def)
  have ph: "analysis_phase E request = (True, fallback_for E request, 1)"
    using assms(1,2,3) by (rule analysis_phase_malformed)
  define tests where
    "tests = generate_loop E request True (fallback_for E request) (testTypes request) 1"
  have gen: "\<exists>tests. generateTestCases E request = Inr tests
               \<and> tests = generate_loop E request True (fallback_for E request)
                            (testTypes request) 1
               \<and> length (testTypes request) \<le> length tests
               \<and> (routes_to_analyzeInput request \<longrightarrow>
                    fallback_for E request = getFallbackAnalysis request
                    \<and> map test_type tests = testTypes request)"
    if kinds: "testTypes request \<noteq> []" "set (testTypes request) \<subseteq> valid_kinds"
  proof -
    have len: "length (testTypes request) \<le> length tests"
      unfolding tests_def by (rule generate_loop_length[OF kinds(2)])
    then have "tests \<noteq> []" using kinds(1) by auto
    then have res: "generateTestCases E request = Inr tests"
      by (simp add: generateTestCases_def ph tests_def Let_def)
    have rt: "routes_to_analyzeInput request \<longrightarrow>
                fallback_for E request = getFallbackAnalysis request
                \<and> map test_type tests = testTypes request"
    proof
      assume r: "routes_to_analyzeInput request"
      then have fb: "fallback_for E request = getFallbackAnalysis request"
        by (auto simp: routes_to_analyzeInput_def fallback_for_def)
      have "few_classes (getFallbackAnalysis request)"
        by (simp add: few_classes_def getFallbackAnalysis_def)
      then have "map test_type tests = testTypes request"
        unfolding tests_def fb by (rule generate_loop_few_classes[OF kinds(2)])
      with fb show "fallback_for E request = getFallbackAnalysis request
                    \<and> map test_type tests = testTypes request" by simp
    qed
    show ?thesis using res len rt tests_def by blast
  qed
  show ?thesis using an ph gen by blast
qed

theorem malformed_analysis_falls_back_witness:
  "analyzeInput malformed_env login_request 0 = (getFallbackAnalysis login_request, 1)
   \<and> (\<exists>tests. generateTestCases malformed_env login_request = Inr tests
         \<and> map test_type tests = [''unit''])"
proof -
  have h1: "llm malformed_env 0 = Inr ''Here is the analysis you asked for''"
    by (simp add: malformed_env_def)
  have h2: "parseAnalysis malformed_env
              (extractJsonFromResponse ''Here is the analysis you asked for'') = None"
    by (simp add: malformed_env_def)
  have h3: "apiKey malformed_env" by (simp add: malformed_env_def)
  have h4: "routes_to_analyzeInput login_request"
    by (simp add: routes_to_analyzeInput_def login_request_def)
  have h5: "testTypes login_request \<noteq> []" by (simp add: login_request_def)
  have h6: "set (testTypes login_request) \<subseteq> valid_kinds"
    by (simp add: login_request_def valid_kinds_def)
  have h7: "testTypes login_request = [''unit'']" by (simp add: login_request_def)
  from malformed_analysis_falls_back[OF h1 h2 h3, of login_request] h4 h5 h6 h7
  show ?thesis by auto
qed


lemma specific_throws_valid:
  "generateSpecificTestType E request k a n = (Inl e, n') \<Longrightarrow> k \<in> valid_kinds"
  by (auto simp: generateSpecificTestType_def valid_kinds_def
      split: if_splits option.splits prod.splits)

lemma analysis_phase_useAI: "analysis_phase E request = (True, a, n) \<Longrightarrow> apiKey E"
  by (auto simp: analysis_phase_def split: if_splits)

lemma tests_for_kind_throw:
  assumes "apiKey E" "ai_attempt E request k a n = (Inl e, n')"
  shows "\<exists>t. generateBasicTestTemplate request k = Some t
           \<and> tests_for_kind E request True a k n = ([t], n')"
proof -
  have "k \<in> valid_kinds"
    using assms specific_throws_valid by (simp add: ai_attempt_def)
  then obtain t where "generateBasicTestTemplate request k = Some t"
    using basic_template_valid by blast
  then show ?thesis using assms(2)
    by (simp add: tests_for_kind_def generateTestFromTemplate_def)
qed

lemma generate_loop_all_throw:
  assumes "apiKey E"
  shows "every_attempt_throws E request a (k # ks) n \<Longrightarrow>
         \<exists>t ts. generateBasicTestTemplate request k = Some t
              \<and> generate_loop E request True a (k # ks) n = t # ts"
proof -
  assume h: "every_attempt_throws E request a (k # ks) n"
  then obtain e n' where "ai_attempt E request k a n = (Inl e, n')"
    by (auto split: prod.splits sum.splits)
  then obtain t where "generateBasicTestTemplate request k = Some t"
      "tests_for_kind E request True a k n = ([t], n')"
    using tests_for_kind_throw[OF assms] by blast
  then show ?thesis by simp
qed

text \<open>
  Claim C4. Let the model be in use after the analysis, and let the per-kind generation call
  throw for every kind of a non-empty list of requested kinds. Then \<open>generateTestCases\<close>
  returns a list whose first artifact is the basic template of the first requested kind.
\<close>

theorem all_kinds_fail_first_template:
  assumes "analysis_phase E request = (True, a, n)"
      and "testTypes request = first # rest"
      and "every_attempt_throws E request a (testTypes request) n"
  shows "\<exists>t tests. generateBasicTestTemplate request first = Some t
           \<and> generateTestCases E request = Inr (t # tests)"
proof -
  have key: "apiKey E" using assms(1) by (rule analysis_phase_useAI)
  obtain t ts where t: "generateBasicTestTemplate request first = Some t"
      and l: "generate_loop E request True a (first # rest) n = t # ts"
    using generate_loop_all_throw[OF key] assms(2,3) by metis
  have "generateTestCases E request = Inr (t # ts)"
    using assms(1,2) l by (simp add: generateTestCases_def)
  with t show ?thesis by blast
qed

theorem all_kinds_fail_first_template_witness:
  "\<exists>t tests. generateBasicTestTemplate two_kind_request ''api'' = Some t
      \<and> generateTestCases failing_env two_kind_request = Inr (t # tests)"
proof -
  have h1: "analysis_phase failing_env two_kind_request
              = (True, getFallbackAnalysis two_kind_request, 1)"
    by (simp add: analysis_phase_def failing_env_def two_kind_request_def login_request_def
        analyzeInput_def ask_analysis_def)
  have h2: "testTypes two_kind_request = ''api'' # [''unit'']"
    by (simp add: two_kind_request_def)
  have h3: "every_attempt_throws failing_env two_kind_request
              (getFallbackAnalysis two_kind_request) (testTypes two_kind_request) 1"
    by (simp add: h2 ai_attempt_def failing_env_def generateSpecificTestType_def
        getFallbackAnalysis_def lift_single_def generateSingleAPITest_def
        generateSingleUnitTest_def single_test_def)
  show ?thesis by (rule all_kinds_fail_first_template[OF h1 h2 h3])
qed

section \<open>Filenames\<close>

text \<open>
  The artifact of a single-test generation carries the filename that \<open>generateFilename\<close>
  computes from the kind and the request: the model's answer does not reach it.
\<close>

lemma single_test_filename:
  "single_test E request kind what cov n = (Inr t, m) \<Longrightarrow>
   filename t = generateFilename kind (language request) (inputData request)"
  by (cases "llm E n") (auto simp: single_test_def)



section \<open>Tokens\<close>

text \<open>
  Claim C8. \<open>generateToken\<close> signs, with the secret and the expiry \<open>7d\<close>, the payload
  made of the user's id, email, role and plan and of nothing else: the user's name does
  not reach the token. \<open>verifyToken\<close> fails closed: for every token that the library's
  verification rejects, whatever the error (signature, expiry, format), it returns no
  user and does not throw.
\<close>

theorem verifyToken_fails_closed:
  assumes "jwt_verify S token (JWT_SECRET S) = Inl e"
  shows "verifyToken S token = None
       \<and> generateToken S user =
           jwt_sign S \<lparr>tp_id = au_id user, tp_email = au_email user, tp_role = au_role user,
                       tp_plan = au_plan user\<rparr> (JWT_SECRET S) ''7d''
       \<and> generateToken S (user\<lparr>au_name := other\<rparr>) = generateToken S user"
  using assms by (simp add: verifyToken_def generateToken_def)

theorem verifyToken_fails_closed_witness:
  "verifyToken example_sys ''forged-token'' = None"
proof -
  have h: "jwt_verify example_sys ''forged-token'' (JWT_SECRET example_sys) = Inl ''invalid signature''"
    by (simp add: example_sys_def)
  from verifyToken_fails_closed[OF h] show ?thesis by simp
qed


section \<open>POST /api/generate-tests: the quota\<close>

lemma generation_failed_status: "status (generation_failed e) \<noteq> 200"
  by (simp add: generation_failed_def)

lemma insert_test_case_Inr:
  "insert_test_case d r = Inr d' \<Longrightarrow> d' = d\<lparr>test_cases := test_cases d @ [r]\<rparr>"
  by (auto simp: insert_test_case_def split: if_splits)

lemma save_tests_ok:
  "save_tests S b uid tests st = (Inr saved, st') \<Longrightarrow>
     map snd saved = tests
     \<and> test_cases (db st') =
         test_cases (db st) @ map (\<lambda>(tid, t). test_case_row_of S b uid tid t) saved
     \<and> users (db st') = users (db st) \<and> projects (db st') = projects (db st)"
proof (induction tests arbitrary: st saved st')
  case Nil
  then show ?case by simp
next
  case (Cons t ts)
  define st1 where "st1 = st\<lparr>idCount := Suc (idCount st)\<rparr>"
  define tid where "tid = newId S (idCount st)"
  from Cons.prems obtain d' where ins: "insert_test_case (db st1) (test_case_row_of S b uid tid t) = Inr d'"
    by (auto simp: Let_def st1_def tid_def split: sum.splits)
  from Cons.prems ins obtain saved1 where
    rec: "save_tests S b uid ts (st1\<lparr>db := d'\<rparr>) = (Inr saved1, st')" and
    sv: "saved = (tid, t) # saved1"
    by (auto simp: Let_def st1_def tid_def split: sum.splits prod.splits)
  have d': "d' = (db st1)\<lparr>test_cases := test_cases (db st1) @ [test_case_row_of S b uid tid t]\<rparr>"
    using ins by (rule insert_test_case_Inr)
  from Cons.IH[OF rec] show ?case
    by (simp add: sv d' st1_def)
qed

lemma insert_audit_log_Inr:
  "insert_audit_log d r = Inr d' \<Longrightarrow> d' = d\<lparr>audit_logs := audit_logs d @ [r]\<rparr>"
  by (auto simp: insert_audit_log_def split: if_splits)



lemma generate_and_save_200:
  assumes "status (response (generate_and_save S E st req decoded userLimit currentUsage)) = 200"
  shows "\<exists>generatedTests saved st1 d'.
           generateTestCases E (request_of (body req)) = Inr generatedTests
         \<and> save_tests S (body req) (tp_id decoded) generatedTests st = (Inr saved, st1)
         \<and> test_cases d' = test_cases (db st1)
         \<and> users d' = users (db st1) \<and> projects d' = projects (db st1)
         \<and> after (generate_and_save S E st req decoded userLimit currentUsage) = st1\<lparr>db := d'\<rparr>
         \<and> reply (response (generate_and_save S E st req decoded userLimit currentUsage)) =
             TestsReply saved
               \<lparr>usage_current = currentUsage + int (length generatedTests),
                usage_limit = userLimit,
                usage_remaining = userLimit - (currentUsage + int (length generatedTests))\<rparr>"
proof -
  let ?out = "generate_and_save S E st req decoded userLimit currentUsage"
  obtain gt where gt: "generateTestCases E (request_of (body req)) = Inr gt"
    using assms
    by (cases "generateTestCases E (request_of (body req))")
       (simp_all add: generate_and_save_def generation_failed_status)
  obtain r st1 where sv0: "save_tests S (body req) (tp_id decoded) gt st = (r, st1)"
    by (cases "save_tests S (body req) (tp_id decoded) gt st") auto
  obtain saved where sv: "save_tests S (body req) (tp_id decoded) gt st = (Inr saved, st1)"
    using assms gt sv0
    by (cases r) (simp_all add: generate_and_save_def generation_failed_status)
  define row where "row = \<lparr>al_user_id = tp_id decoded,
              al_action = ''test_generation'',
              al_resource_type = ''test_cases'',
              al_resource_id = join '','' (map fst saved),
              al_ip_address = (case forwarded_for req of
                                 Some h \<Rightarrow> if h = [] then ''unknown'' else h
                               | None \<Rightarrow> ''unknown''),
              al_user_agent = (case user_agent req of
                                 Some h \<Rightarrow> if h = [] then ''unknown'' else h
                               | None \<Rightarrow> ''unknown'')\<rparr>"
  obtain d' where au: "insert_audit_log (db st1) row = Inr d'"
    using assms gt sv unfolding row_def
    by (cases "insert_audit_log (db st1) row")
       (simp_all add: generate_and_save_def generation_failed_status row_def)
  have d': "d' = (db st1)\<lparr>audit_logs := audit_logs (db st1) @ [row]\<rparr>"
    using au by (rule insert_audit_log_Inr)
  have out: "?out = \<lparr>response =
             \<lparr>status = 200,
              reply = TestsReply saved
                \<lparr>usage_current = currentUsage + int (length gt),
                 usage_limit = userLimit,
                 usage_remaining = userLimit - (currentUsage + int (length gt))\<rparr>\<rparr>,
           after = st1\<lparr>db := d'\<rparr>,
           generations = [request_of (body req)]\<rparr>"
    using gt sv au unfolding row_def by (simp add: generate_and_save_def)
  have "test_cases d' = test_cases (db st1) \<and> users d' = users (db st1)
      \<and> projects d' = projects (db st1)"
    by (simp add: d')
  then show ?thesis
    using gt sv out by (intro exI[of _ gt] exI[of _ saved] exI[of _ st1] exI[of _ d']) simp
qed

lemma POST_generate_200:
  assumes "status (response (POST_generate_tests S E st req)) = 200"
  shows "\<exists>token decoded p.
           bearer (authorization req) = Some token
         \<and> verifyToken S token = Some decoded
         \<and> passes_validation (body req)
         \<and> select_plan (db st) (tp_id decoded) = Some p
         \<and> count_test_cases (db st) (tp_id decoded) < userLimit_of p
         \<and> POST_generate_tests S E st req =
             generate_and_save S E st req decoded (userLimit_of p)
               (count_test_cases (db st) (tp_id decoded))"
proof -
  obtain token where tk: "bearer (authorization req) = Some token"
    using assms by (cases "bearer (authorization req)") (simp_all add: POST_generate_tests_def)
  obtain decoded where dc: "verifyToken S token = Some decoded"
    using assms tk by (cases "verifyToken S token") (simp_all add: POST_generate_tests_def)
  have val: "passes_validation (body req)"
  proof (rule ccontr)
    assume "\<not> passes_validation (body req)"
    then have "status (response (POST_generate_tests S E st req)) = 400"
      using tk dc by (auto simp: POST_generate_tests_def passes_validation_def)
    with assms show False by simp
  qed
  obtain p where pl: "select_plan (db st) (tp_id decoded) = Some p"
    using assms tk dc val
    by (cases "select_plan (db st) (tp_id decoded)")
       (simp_all add: POST_generate_tests_def passes_validation_def generation_failed_status)
  have lt: "count_test_cases (db st) (tp_id decoded) < userLimit_of p"
  proof (rule ccontr)
    assume "\<not> count_test_cases (db st) (tp_id decoded) < userLimit_of p"
    then have "status (response (POST_generate_tests S E st req)) = 429"
      using tk dc val pl by (simp add: POST_generate_tests_def passes_validation_def)
    with assms show False by simp
  qed
  have "POST_generate_tests S E st req =
          generate_and_save S E st req decoded (userLimit_of p)
            (count_test_cases (db st) (tp_id decoded))"
    using tk dc val pl lt by (simp add: POST_generate_tests_def passes_validation_def)
  then show ?thesis using tk dc val pl lt by blast
qed

lemma userLimit_of_cases:
  "userLimit_of p =
     (if p = ''free'' then 100 else if p = ''basic'' then 1000
      else if p = ''pro'' then 5000 else if p = ''enterprise'' then 999999 else 100)"
  by (simp add: userLimit_of_def planLimits_def)


lemma count_state_with: "count_test_cases (db (state_with n)) ''u1'' = int n"
  by (simp add: count_test_cases_def state_with_def stored_case_def filter_map o_def)

lemma example_auth:
  "bearer (authorization login_post) = Some ''good-token''"
  "bearer (authorization empty_post) = Some ''good-token''"
  "verifyToken example_sys ''good-token'' = Some example_payload"
  by (simp_all add: bearer_def login_post_def empty_post_def verifyToken_def example_sys_def)

lemma example_plan: "select_plan (db (state_with n)) (tp_id example_payload) = Some ''free''"
  by (simp add: select_plan_def state_with_def example_payload_def example_user_def)



section \<open>POST /api/generate-tests: the usage scenario\<close>

lemma count_after_save:
  assumes "save_tests S b uid tests st = (Inr saved, st')"
  shows "count_test_cases (db st') uid = count_test_cases (db st) uid + int (length saved)"
proof -
  have tc: "test_cases (db st') =
         test_cases (db st) @ map (\<lambda>(tid, t). test_case_row_of S b uid tid t) saved"
    using save_tests_ok[OF assms] by simp
  have "filter (\<lambda>r. tc_created_by r = uid) (map (\<lambda>(tid, t). test_case_row_of S b uid tid t) saved)
          = map (\<lambda>(tid, t). test_case_row_of S b uid tid t) saved"
    by (rule filter_True) (auto simp: test_case_row_of_def)
  then show ?thesis by (simp add: count_test_cases_def tc)
qed

lemma unit_few_classes_single:
  assumes "testTypes request = [''unit'']"
      and "few_classes (fst (snd (analysis_phase E request)))"
      and "generateTestCases E request = Inr tests"
  shows "length tests = 1"
proof -
  obtain useAI a n where ph: "analysis_phase E request = (useAI, a, n)"
    by (cases "analysis_phase E request") auto
  have fc: "few_classes a" using assms(2) ph by simp
  have "set [''unit''] \<subseteq> valid_kinds" by (simp add: valid_kinds_def)
  then have "map test_type (generate_loop E request useAI a [''unit''] n) = [''unit'']"
    using fc by (rule generate_loop_few_classes)
  then have l: "length (generate_loop E request useAI a [''unit''] n) = 1"
    by (metis length_map length_Cons list.size(3) One_nat_def)
  then have "generate_loop E request useAI a [''unit''] n \<noteq> []" by auto
  then have "generateTestCases E request = Inr (generate_loop E request useAI a [''unit''] n)"
    by (simp add: generateTestCases_def ph assms(1) Let_def)
  with assms(3) l show ?thesis by simp
qed

text \<open>
  Claim C7 (as amended). A user on the free plan has 99 stored test cases and posts a user
  story with the single kind \<open>unit\<close> and the language \<open>java\<close>. If the response is a
  success, then at least one artifact was saved, \<open>usage.current\<close> is 99 plus the number of
  artifacts, \<open>usage.limit\<close> is 100 and \<open>usage.remaining\<close> is the limit minus the current
  usage; this is 0 when one artifact was generated, which is the case whenever the
  analysis names fewer than two testable classes. The same request sent again, whatever
  the model then does, is answered 429 with \<open>limit\<close> 100 and \<open>current\<close> the count reached.

  When the analysis names two testable classes or more, the kind \<open>unit\<close> yields one
  artifact per class and a suite runner, the usage passes the limit and
  \<open>usage.remaining\<close> is negative (the counterexample further below: 102 of 100).
\<close>

theorem scenario_usage_then_limit:
  assumes "bearer (authorization req) = Some token"
      and "verifyToken S token = Some decoded"
      and "select_plan (db st) (tp_id decoded) = Some ''free''"
      and "count_test_cases (db st) (tp_id decoded) = 99"
      and "b_inputType (body req) = ''user_story''"
      and "b_testTypes (body req) = [''unit'']"
      and "b_language (body req) = ''java''"
      and "status (response (POST_generate_tests S E st req)) = 200"
  shows "\<exists>saved u. reply (response (POST_generate_tests S E st req)) = TestsReply saved u
          \<and> saved \<noteq> []
          \<and> usage_current u = 99 + int (length saved)
          \<and> usage_limit u = 100
          \<and> usage_remaining u = usage_limit u - usage_current u
          \<and> (length saved = 1 \<longrightarrow> usage_remaining u = 0)
          \<and> (few_classes (fst (snd (analysis_phase E (request_of (body req))))) \<longrightarrow>
                length saved = 1)
          \<and> response (POST_generate_tests S E' (after (POST_generate_tests S E st req)) req) =
              \<lparr>status = 429, reply = LimitReply limit_message 100 (99 + int (length saved))\<rparr>"
proof -
  let ?out = "POST_generate_tests S E st req"
  let ?uid = "tp_id decoded"
  obtain token' decoded' p where
    s: "bearer (authorization req) = Some token'" "verifyToken S token' = Some decoded'"
       "passes_validation (body req)" "select_plan (db st) (tp_id decoded') = Some p"
       "?out = generate_and_save S E st req decoded' (userLimit_of p)
                 (count_test_cases (db st) (tp_id decoded'))"
    using POST_generate_200[OF assms(8)] by blast
  have same: "token' = token" "decoded' = decoded" "p = ''free''"
    using s(1,2,4) assms(1,2,3) by auto
  have lim: "userLimit_of ''free'' = 100" by (simp add: userLimit_of_def planLimits_def)
  have out: "?out = generate_and_save S E st req decoded 100 99"
    using s(5) same lim assms(4) by simp
  obtain gt saved st1 d' where
    g: "generateTestCases E (request_of (body req)) = Inr gt"
       "save_tests S (body req) ?uid gt st = (Inr saved, st1)"
       "test_cases d' = test_cases (db st1)" "users d' = users (db st1)"
       "after ?out = st1\<lparr>db := d'\<rparr>"
       "reply (response ?out) = TestsReply saved
               \<lparr>usage_current = 99 + int (length gt), usage_limit = 100,
                usage_remaining = 100 - (99 + int (length gt))\<rparr>"
    using generate_and_save_200[of S E st req decoded 100 99] assms(8) unfolding out by blast
  have len: "length saved = length gt"
    using save_tests_ok[OF g(2)] by (metis length_map)
  have tt: "testTypes (request_of (body req)) = [''unit'']"
    using assms(6) by (simp add: request_of_def)
  have "gt \<noteq> []"
    using generateTestCases_returns[of "request_of (body req)" E] g(1) tt
    by (simp add: valid_kinds_def)
  then have ne: "saved \<noteq> []" using len by auto
  have few: "few_classes (fst (snd (analysis_phase E (request_of (body req))))) \<longrightarrow> length saved = 1"
    using unit_few_classes_single[OF tt _ g(1)] len by simp
  have cnt: "count_test_cases (db (after ?out)) ?uid = 99 + int (length saved)"
    using count_after_save[OF g(2)] assms(4) g(3,5)
    by (simp add: count_test_cases_def)
  have pl: "select_plan (db (after ?out)) ?uid = Some ''free''"
    using save_tests_ok[OF g(2)] g(4,5) assms(3) by (simp add: select_plan_def)
  have ge: "count_test_cases (db (after ?out)) ?uid \<ge> userLimit_of ''free''"
    using cnt ne lim by (cases saved) auto
  have second: "response (POST_generate_tests S E' (after ?out) req) =
      \<lparr>status = 429, reply = LimitReply limit_message 100 (99 + int (length saved))\<rparr>"
    using assms(1,2) s(3) pl ge cnt lim
    by (simp add: POST_generate_tests_def passes_validation_def)
  show ?thesis
    using g(6) ne len few second
    by (intro exI[of _ saved]
          exI[of _ "\<lparr>usage_current = 99 + int (length gt), usage_limit = 100,
                     usage_remaining = 100 - (99 + int (length gt))\<rparr>"]) simp
qed

lemma insert_test_case_fresh:
  assumes "tc_id r \<notin> set (map tc_id (test_cases d))" "tc_project_id r = None"
      and "tc_created_by r \<in> set (map user_id (users d))"
  shows "insert_test_case d r = Inr (d\<lparr>test_cases := test_cases d @ [r]\<rparr>)"
  using assms by (simp add: insert_test_case_def)

lemma save_tests_succeeds:
  assumes "uid \<in> set (map user_id (users (db st)))"
      and "b_projectId b = None"
      and "\<forall>k<length tests. newId S (idCount st + k) \<notin> set (map tc_id (test_cases (db st)))"
      and "\<forall>j<length tests. \<forall>k<j. newId S (idCount st + j) \<noteq> newId S (idCount st + k)"
  shows "\<exists>saved st'. save_tests S b uid tests st = (Inr saved, st')"
  using assms
proof (induction tests arbitrary: st)
  case Nil
  then show ?case by simp
next
  case (Cons t ts)
  define tid where "tid = newId S (idCount st)"
  define r where "r = test_case_row_of S b uid tid t"
  define st1 where "st1 = st\<lparr>idCount := Suc (idCount st)\<rparr>"
  define st2 where "st2 = st1\<lparr>db := (db st1)\<lparr>test_cases := test_cases (db st1) @ [r]\<rparr>\<rparr>"
  have f0: "tid \<notin> set (map tc_id (test_cases (db st)))"
    using Cons.prems(3) unfolding tid_def by (metis add.right_neutral length_greater_0_conv list.distinct(1))
  have ins: "insert_test_case (db st1) r = Inr ((db st1)\<lparr>test_cases := test_cases (db st1) @ [r]\<rparr>)"
    using f0 Cons.prems(1,2)
    by (intro insert_test_case_fresh) (simp_all add: r_def st1_def test_case_row_of_def)
  have a1: "uid \<in> set (map user_id (users (db st2)))"
    using Cons.prems(1) by (simp add: st2_def st1_def)
  have a3: "\<forall>k<length ts. newId S (idCount st2 + k) \<notin> set (map tc_id (test_cases (db st2)))"
  proof (intro allI impI)
    fix k assume k: "k < length ts"
    have "newId S (idCount st + Suc k) \<notin> set (map tc_id (test_cases (db st)))"
      using Cons.prems(3) k by (metis Suc_less_eq length_Cons)
    moreover have "newId S (idCount st + Suc k) \<noteq> newId S (idCount st + 0)"
      using Cons.prems(4) k by (metis Suc_less_eq length_Cons zero_less_Suc)
    ultimately show "newId S (idCount st2 + k) \<notin> set (map tc_id (test_cases (db st2)))"
      by (simp add: st2_def st1_def r_def test_case_row_of_def tid_def)
  qed
  have a4: "\<forall>j<length ts. \<forall>k<j. newId S (idCount st2 + j) \<noteq> newId S (idCount st2 + k)"
  proof (intro allI impI)
    fix j k assume j: "j < length ts" and k: "k < j"
    have "newId S (idCount st + Suc j) \<noteq> newId S (idCount st + Suc k)"
      using Cons.prems(4) j k by (metis Suc_less_eq length_Cons)
    then show "newId S (idCount st2 + j) \<noteq> newId S (idCount st2 + k)"
      by (simp add: st2_def st1_def)
  qed
  obtain saved st' where rec: "save_tests S b uid ts st2 = (Inr saved, st')"
    using Cons.IH[OF a1 Cons.prems(2) a3 a4] by blast
  have "save_tests S b uid (t # ts) st = (Inr ((tid, t) # saved), st')"
    using ins rec
    by (simp add: Let_def tid_def[symmetric] st1_def[symmetric] r_def[symmetric] st2_def[symmetric])
  then show ?case by blast
qed

lemma generate_and_save_succeeds:
  assumes "generateTestCases E (request_of (body req)) = Inr gt"
      and "save_tests S (body req) (tp_id decoded) gt st = (Inr saved, st1)"
      and "tp_id decoded \<in> set (map user_id (users (db st1)))"
  shows "status (response (generate_and_save S E st req decoded l c)) = 200"
  using assms by (simp add: generate_and_save_def insert_audit_log_def)

lemma example_ids_fresh:
  "newId example_sys k \<notin> set (map tc_id (test_cases (db (state_with n))))"
  by (auto simp: example_sys_def state_with_def stored_case_def)

lemma example_ids_distinct: "k < j \<Longrightarrow> newId example_sys j \<noteq> newId example_sys k"
proof
  assume "k < j" and "newId example_sys j = newId example_sys k"
  then have "length (replicate j (CHR ''x'')) = length (replicate k (CHR ''x''))"
    by (simp add: example_sys_def)
  with \<open>k < j\<close> show False by simp
qed

lemma count_state_with': "count_test_cases (db (state_with n)) (tp_id example_payload) = int n"
  using count_state_with by (simp add: example_payload_def)

lemma login_post_200:
  assumes "generateTestCases E (request_of login_body) = Inr gt"
  shows "status (response (POST_generate_tests example_sys E (state_with 99) login_post)) = 200"
proof -
  have u: "tp_id example_payload \<in> set (map user_id (users (db (state_with 99))))"
    by (simp add: example_payload_def state_with_def example_user_def)
  have p: "b_projectId login_body = None" by (simp add: login_body_def)
  obtain saved st1 where sv:
    "save_tests example_sys login_body (tp_id example_payload) gt (state_with 99) = (Inr saved, st1)"
    using save_tests_succeeds[OF u p, of gt example_sys] example_ids_fresh example_ids_distinct
    by (metis nat_add_left_cancel_less)
  have u1: "tp_id example_payload \<in> set (map user_id (users (db st1)))"
    using save_tests_ok[OF sv] u by simp
  have b: "body login_post = login_body" by (simp add: login_post_def)
  have "POST_generate_tests example_sys E (state_with 99) login_post =
          generate_and_save example_sys E (state_with 99) login_post example_payload 100 99"
    using example_auth(1,3) example_plan[of 99] count_state_with'[of 99]
    by (simp add: POST_generate_tests_def b login_body_def userLimit_of_cases)
  then show ?thesis
    using generate_and_save_succeeds[of E login_post gt example_sys example_payload "state_with 99" saved st1]
      assms sv u1 b by simp
qed

lemma failing_env_generates:
  "\<exists>gt. generateTestCases failing_env (request_of login_body) = Inr gt"
  using generateTestCases_returns[of "request_of login_body" failing_env]
  by (auto simp: request_of_def login_body_def valid_kinds_def)

theorem scenario_usage_then_limit_witness:
  "\<exists>saved u. reply (response (POST_generate_tests example_sys failing_env (state_with 99) login_post))
                = TestsReply saved u
      \<and> usage_current u = 100 \<and> usage_limit u = 100 \<and> usage_remaining u = 0
      \<and> response (POST_generate_tests example_sys failing_env
            (after (POST_generate_tests example_sys failing_env (state_with 99) login_post))
            login_post)
          = \<lparr>status = 429, reply = LimitReply limit_message 100 100\<rparr>"
proof -
  obtain gt where gt: "generateTestCases failing_env (request_of login_body) = Inr gt"
    using failing_env_generates by blast
  have h8: "status (response (POST_generate_tests example_sys failing_env (state_with 99) login_post)) = 200"
    using gt by (rule login_post_200)
  have h5: "b_inputType (body login_post) = ''user_story''"
   and h6: "b_testTypes (body login_post) = [''unit'']"
   and h7: "b_language (body login_post) = ''java''"
    by (simp_all add: login_post_def login_body_def)
  have few: "few_classes (fst (snd (analysis_phase failing_env (request_of (body login_post)))))"
    by (simp add: analysis_phase_def failing_env_def request_of_def login_post_def login_body_def
        analyzeInput_def ask_analysis_def getFallbackAnalysis_def few_classes_def)
  have h4: "count_test_cases (db (state_with 99)) (tp_id example_payload) = 99"
    using count_state_with'[of 99] by simp
  from scenario_usage_then_limit[OF example_auth(1) example_auth(3) example_plan
        h4 h5 h6 h7 h8, of failing_env] few
  show ?thesis by auto
qed

lemma two_class_env_generates:
  "\<exists>gt. generateTestCases two_class_env (request_of login_body) = Inr gt \<and> length gt = 3"
  by (simp add: generateTestCases_def analysis_phase_def two_class_env_def request_of_def
      login_body_def analyzeInput_def ask_analysis_def two_class_analysis_def empty_analysis_def
      tests_for_kind_def ai_attempt_def generateSpecificTestType_def
      generateProjectLevelUnitTests_def Let_def)

theorem scenario_overshoot_counterexample:
  "status (response (POST_generate_tests example_sys two_class_env (state_with 99) login_post)) = 200
   \<and> usage_of (reply (response (POST_generate_tests example_sys two_class_env (state_with 99) login_post)))
       = Some \<lparr>usage_current = 102, usage_limit = 100, usage_remaining = - 2\<rparr>"
proof -
  let ?out = "POST_generate_tests example_sys two_class_env (state_with 99) login_post"
  obtain gt where gt: "generateTestCases two_class_env (request_of login_body) = Inr gt"
      and l: "length gt = 3"
    using two_class_env_generates by blast
  have ok: "status (response ?out) = 200" using gt by (rule login_post_200)
  obtain token decoded p where
    s: "bearer (authorization login_post) = Some token" "verifyToken example_sys token = Some decoded"
       "select_plan (db (state_with 99)) (tp_id decoded) = Some p"
       "?out = generate_and_save example_sys two_class_env (state_with 99) login_post decoded
                 (userLimit_of p) (count_test_cases (db (state_with 99)) (tp_id decoded))"
    using POST_generate_200[OF ok] by blast
  have same: "decoded = example_payload" "p = ''free''"
    using s(1,2,3) example_auth(1,3) example_plan[of 99] by auto
  have out: "?out = generate_and_save example_sys two_class_env (state_with 99) login_post
                      example_payload 100 99"
    using s(4) same count_state_with'[of 99] by (simp add: userLimit_of_cases)
  have b: "body login_post = login_body" by (simp add: login_post_def)
  obtain gt' saved where
    g: "generateTestCases two_class_env (request_of (body login_post)) = Inr gt'"
       "reply (response ?out) = TestsReply saved
               \<lparr>usage_current = 99 + int (length gt'), usage_limit = 100,
                usage_remaining = 100 - (99 + int (length gt'))\<rparr>"
    using generate_and_save_200[of example_sys two_class_env "state_with 99" login_post
            example_payload 100 99] ok unfolding out by blast
  have "gt' = gt" using g(1) gt b by simp
  then show ?thesis using ok g(2) l by simp
qed

section \<open>Metadata written and read back\<close>

lemma select_test_cases_member:
  assumes "r \<in> set (test_cases d)" "tc_created_by r = uid"
  shows "\<exists>pn. (r, pn) \<in> set (select_test_cases d uid)"
proof -
  have "r \<in> set (rev (sort_key tc_created_at (filter (\<lambda>r. tc_created_by r = uid) (test_cases d))))"
    using assms by simp
  then show ?thesis unfolding select_test_cases_def by (metis (no_types, lifting) image_eqI set_map)
qed

text \<open>
  Claim C6. Let a POST to /api/generate-tests succeed and answer with the saved artifacts.
  For every saved artifact the handler stored, in the column \<open>metadata\<close> of its row, the
  string that \<open>JSON.stringify\<close> made of the metadata object, whose description, coverage
  and dependencies are those of the artifact. A GET to /api/test-cases with the same
  authorization then returns a row with the artifact's id whose \<open>metadata\<close> is that same
  string; so a parser that inverts \<open>JSON.stringify\<close> on it gives back the object that
  was serialised, with the coverage and the dependency lists as they were, in order.
\<close>

theorem metadata_round_trip:
  assumes "status (response (POST_generate_tests S E st req)) = 200"
      and "reply (response (POST_generate_tests S E st req)) = TestsReply saved u"
      and "(tid, test) \<in> set saved"
      and "authorization greq = authorization req"
      and "parse (stringify S (metadata_of S (body req) test))
             = Some (metadata_of S (body req) test)"
  shows "\<exists>rows r pn m.
           GET_test_cases S (after (POST_generate_tests S E st req)) greq
             = \<lparr>status = 200, reply = TestCasesReply rows\<rparr>
         \<and> (r, pn) \<in> set rows \<and> tc_id r = tid
         \<and> tc_metadata r = stringify S (metadata_of S (body req) test)
         \<and> parse (tc_metadata r) = Some m
         \<and> md_description m = description test
         \<and> md_coverage m = coverage test
         \<and> md_dependencies m = dependencies test"
proof -
  let ?out = "POST_generate_tests S E st req"
  obtain token decoded p where
    s: "bearer (authorization req) = Some token" "verifyToken S token = Some decoded"
       "?out = generate_and_save S E st req decoded (userLimit_of p)
                 (count_test_cases (db st) (tp_id decoded))"
    using POST_generate_200[OF assms(1)] by blast
  obtain gt saved' st1 d' where
    g: "save_tests S (body req) (tp_id decoded) gt st = (Inr saved', st1)"
       "test_cases d' = test_cases (db st1)"
       "after ?out = st1\<lparr>db := d'\<rparr>"
       "reply (response ?out) = TestsReply saved'
               \<lparr>usage_current = count_test_cases (db st) (tp_id decoded) + int (length gt),
                usage_limit = userLimit_of p,
                usage_remaining = userLimit_of p
                  - (count_test_cases (db st) (tp_id decoded) + int (length gt))\<rparr>"
    using generate_and_save_200[of S E st req decoded "userLimit_of p"
            "count_test_cases (db st) (tp_id decoded)"] assms(1) unfolding s(3) by blast
  have sv: "saved' = saved" using g(4) assms(2) by simp
  define r where "r = test_case_row_of S (body req) (tp_id decoded) tid test"
  have "r \<in> set (map (\<lambda>(tid, t). test_case_row_of S (body req) (tp_id decoded) tid t) saved)"
    using assms(3) unfolding r_def by force
  then have mem: "r \<in> set (test_cases (db (after ?out)))"
    using save_tests_ok[OF g(1)] g(2,3) sv by simp
  have cb: "tc_created_by r = tp_id decoded" by (simp add: r_def test_case_row_of_def)
  obtain pn where pn: "(r, pn) \<in> set (select_test_cases (db (after ?out)) (tp_id decoded))"
    using select_test_cases_member[OF mem cb] by blast
  have get: "GET_test_cases S (after ?out) greq
      = \<lparr>status = 200,
         reply = TestCasesReply (select_test_cases (db (after ?out)) (tp_id decoded))\<rparr>"
    using s(1,2) assms(4) by (simp add: GET_test_cases_def)
  have md: "tc_metadata r = stringify S (metadata_of S (body req) test)" "tc_id r = tid"
    by (simp_all add: r_def test_case_row_of_def)
  have fields: "md_description (metadata_of S (body req) test) = description test"
      "md_coverage (metadata_of S (body req) test) = coverage test"
      "md_dependencies (metadata_of S (body req) test) = dependencies test"
    by (simp_all add: metadata_of_def)
  show ?thesis
    using get pn md fields assms(5)
    by (intro exI[of _ "select_test_cases (db (after ?out)) (tp_id decoded)"] exI[of _ r]
          exI[of _ pn] exI[of _ "metadata_of S (body req) test"]) simp
qed

theorem metadata_round_trip_witness:
  "\<exists>rows r pn tid test.
      GET_test_cases example_sys
        (after (POST_generate_tests example_sys failing_env (state_with 99) login_post))
        list_request
        = \<lparr>status = 200, reply = TestCasesReply rows\<rparr>
    \<and> (r, pn) \<in> set rows \<and> tc_id r = tid
    \<and> tc_metadata r = stringify example_sys (metadata_of example_sys login_body test)"
proof -
  let ?out = "POST_generate_tests example_sys failing_env (state_with 99) login_post"
  obtain gt where gt: "generateTestCases failing_env (request_of login_body) = Inr gt"
    using failing_env_generates by blast
  have h1: "status (response ?out) = 200" using gt by (rule login_post_200)
  obtain token decoded p where
    s: "?out = generate_and_save example_sys failing_env (state_with 99) login_post decoded
                 (userLimit_of p) (count_test_cases (db (state_with 99)) (tp_id decoded))"
    using POST_generate_200[OF h1] by blast
  obtain gt' saved u where
    g: "generateTestCases failing_env (request_of (body login_post)) = Inr gt'"
       "save_tests example_sys (body login_post) (tp_id decoded) gt' (state_with 99) = (Inr saved, u)"
    and h2': "reply (response ?out) = TestsReply saved
               \<lparr>usage_current = count_test_cases (db (state_with 99)) (tp_id decoded) + int (length gt'),
                usage_limit = userLimit_of p,
                usage_remaining = userLimit_of p
                  - (count_test_cases (db (state_with 99)) (tp_id decoded) + int (length gt'))\<rparr>"
    using generate_and_save_200[of example_sys failing_env "state_with 99" login_post decoded
            "userLimit_of p" "count_test_cases (db (state_with 99)) (tp_id decoded)"] h1
    unfolding s by blast
  have b: "body login_post = login_body" by (simp add: login_post_def)
  have "gt' \<noteq> []"
    using generateTestCases_returns[of "request_of login_body" failing_env] g(1) b
    by (auto simp: request_of_def login_body_def valid_kinds_def)
  then have "saved \<noteq> []" using save_tests_ok[OF g(2)] by auto
  then obtain tid test where h3: "(tid, test) \<in> set saved"
    by (cases saved) auto
  have h4: "authorization list_request = authorization login_post"
    by (simp add: list_request_def login_post_def)
  define parse where "parse = (\<lambda>s :: string.
     if s = stringify example_sys (metadata_of example_sys (body login_post) test)
     then Some (metadata_of example_sys (body login_post) test) else None)"
  have h5: "parse (stringify example_sys (metadata_of example_sys (body login_post) test))
             = Some (metadata_of example_sys (body login_post) test)"
    by (simp add: parse_def)
  from metadata_round_trip[where parse = parse, OF h1 h2' h3 h4 h5] show ?thesis
    unfolding b by blast
qed

section \<open>POST /api/executions\<close>








end
